theory Spec2Isabelle
  imports Main "HOL-Library.Word"
begin

unbundle bit_operations_syntax

section \<open>Machine state (6502.c)\<close>

text \<open>
  The emulator keeps its state in two file-scope objects: the array \<open>mem\<close> of 64 KiB
  and the struct \<open>cpu\<close>.  Both are fields of one record here; every function of the
  source that touches them takes the record and returns the updated one.  The fields of
  the struct keep their names behind the prefix \<open>cpu_\<close>, as the source writes
  \<open>cpu.a\<close>, \<open>cpu.flags\<close>, and so on.
\<close>

type_synonym u8 = "8 word"
type_synonym u16 = "16 word"

record machine =
  cpu_a :: u8
  cpu_x :: u8
  cpu_y :: u8
  cpu_flags :: u8
  cpu_sp :: u8
  cpu_pc :: u16
  mem :: "u16 \<Rightarrow> u8"

text \<open>The macro \<open>ERROR\<close> prints a message and exits: the only error of the program.\<close>

datatype error = Undefined_opcode u8

definition rd8 :: "machine \<Rightarrow> u16 \<Rightarrow> u8" where
  "rd8 s addr = mem s addr"

definition wr8 :: "u16 \<Rightarrow> u8 \<Rightarrow> machine \<Rightarrow> machine" where
  "wr8 addr v s = s\<lparr>mem := (mem s)(addr := v)\<rparr>"

definition F_N :: u8 where "F_N = 0x80"
definition F_V :: u8 where "F_V = 0x40"
definition F_5 :: u8 where "F_5 = 0x20"
definition F_B :: u8 where "F_B = 0x10"
definition F_D :: u8 where "F_D = 0x08"
definition F_I :: u8 where "F_I = 0x04"
definition F_Z :: u8 where "F_Z = 0x02"
definition F_C :: u8 where "F_C = 0x01"

definition F_PHYSICAL :: u8 where
  "F_PHYSICAL = F_N OR F_V OR F_D OR F_I OR F_Z OR F_C"

definition cpu_init :: "machine \<Rightarrow> machine" where
  "cpu_init s =
     (let s = s\<lparr>cpu_a := 0, cpu_x := 0, cpu_y := 0\<rparr>;
          s = s\<lparr>cpu_flags := F_I\<rparr>;
          s = s\<lparr>cpu_sp := 0xFD\<rparr>
      in s\<lparr>cpu_pc := ucast (rd8 s 0xFFFC) + push_bit 8 (ucast (rd8 s 0xFFFD))\<rparr>)"

subsection \<open>Stack and instruction stream\<close>

text \<open>
  In \<open>0x0100 + cpu.sp\<close> the 8-bit stack pointer is promoted to \<open>int\<close> before the
  addition, so the sum is formed without wrap-around and then passed as a 16-bit address.
\<close>

definition cpu_push8 :: "u8 \<Rightarrow> machine \<Rightarrow> machine" where
  "cpu_push8 v s =
     (let s = wr8 (0x0100 + ucast (cpu_sp s)) v s
      in s\<lparr>cpu_sp := cpu_sp s - 1\<rparr>)"

definition cpu_pop8 :: "machine \<Rightarrow> u8 \<times> machine" where
  "cpu_pop8 s =
     (let s = s\<lparr>cpu_sp := cpu_sp s + 1\<rparr>
      in (rd8 s (0x0100 + ucast (cpu_sp s)), s))"

definition cpu_fetch8 :: "machine \<Rightarrow> u8 \<times> machine" where
  "cpu_fetch8 s = (rd8 s (cpu_pc s), s\<lparr>cpu_pc := cpu_pc s + 1\<rparr>)"

definition cpu_fetch16 :: "machine \<Rightarrow> u16 \<times> machine" where
  "cpu_fetch16 s =
     (let addr = ucast (rd8 s (cpu_pc s));
          s = s\<lparr>cpu_pc := cpu_pc s + 1\<rparr>;
          addr = addr + push_bit 8 (ucast (rd8 s (cpu_pc s)));
          s = s\<lparr>cpu_pc := cpu_pc s + 1\<rparr>
      in (addr, s))"

text \<open>Indexed indirect \<open>(ind,X)\<close>: the pointer \<open>zpaddr\<close> is 8 bits wide and wraps.\<close>

definition cpu_ind_x :: "machine \<Rightarrow> u16 \<times> machine" where
  "cpu_ind_x s =
     (let (b, s) = cpu_fetch8 s;
          zpaddr = (ucast ((ucast b + ucast (cpu_x s) :: u16) AND 0xFF) :: u8);
          addr = ucast (rd8 s (ucast zpaddr));
          zpaddr = zpaddr + 1;
          addr = addr + push_bit 8 (ucast (rd8 s (ucast zpaddr)))
      in (addr, s))"

text \<open>Indirect indexed \<open>(ind),Y\<close>.\<close>

definition cpu_ind_y :: "machine \<Rightarrow> u16 \<times> machine" where
  "cpu_ind_y s =
     (let (b, s) = cpu_fetch8 s;
          zpaddr = b;
          addr = ucast (rd8 s (ucast zpaddr));
          zpaddr = zpaddr + 1;
          addr = addr + push_bit 8 (ucast (rd8 s (ucast zpaddr)))
      in (addr + ucast (cpu_y s), s))"

subsection \<open>Flag updates and the arithmetic helpers\<close>

definition cpu_flags_nz :: "u8 \<Rightarrow> machine \<Rightarrow> machine" where
  "cpu_flags_nz v s =
     s\<lparr>cpu_flags := (cpu_flags s AND NOT (F_N OR F_Z))
         OR (if v AND 0x80 \<noteq> 0 then F_N else 0)
         OR (if v \<noteq> 0 then 0 else F_Z)\<rparr>"

definition cpu_flags_nzc :: "u16 \<Rightarrow> machine \<Rightarrow> machine" where
  "cpu_flags_nzc v s =
     s\<lparr>cpu_flags := (cpu_flags s AND NOT (F_N OR F_Z OR F_C))
         OR (if v AND 0x80 \<noteq> 0 then F_N else 0)
         OR (if v AND 0xFF \<noteq> 0 then 0 else F_Z)
         OR (if drop_bit 8 v \<noteq> 0 then 0 else F_C)\<rparr>"

definition cpu_bit :: "u8 \<Rightarrow> machine \<Rightarrow> machine" where
  "cpu_bit v s =
     s\<lparr>cpu_flags := (cpu_flags s AND NOT (F_N OR F_Z OR F_V))
         OR (if v AND 0x80 \<noteq> 0 then F_N else 0)
         OR (if cpu_a s AND v \<noteq> 0 then 0 else F_Z)
         OR (if v AND 0x40 \<noteq> 0 then F_V else 0)\<rparr>"

text \<open>
  \<open>cpu_adc\<close> and \<open>cpu_sbc\<close> compute the sum twice: \<open>u\<close> in \<open>uint16_t\<close> from the
  zero-extended operands and \<open>s\<close> in \<open>int16_t\<close> from the sign-extended ones.  Both are
  16-bit words here; \<open>s\<close> is compared as a signed number.
\<close>

definition cpu_adc :: "u8 \<Rightarrow> machine \<Rightarrow> machine" where
  "cpu_adc v s =
     (let u = (ucast (cpu_a s) + ucast v + (if cpu_flags s AND F_C \<noteq> 0 then 1 else 0) :: u16);
          sg = (scast (cpu_a s) + scast v + (if cpu_flags s AND F_C \<noteq> 0 then 1 else 0) :: u16);
          s = s\<lparr>cpu_a := ucast u\<rparr>
      in s\<lparr>cpu_flags := (cpu_flags s AND NOT (F_N OR F_Z OR F_V OR F_C))
           OR (if cpu_a s AND 0x80 \<noteq> 0 then F_N else 0)
           OR (if cpu_a s \<noteq> 0 then 0 else F_Z)
           OR (if drop_bit 8 u \<noteq> 0 then F_C else 0)
           OR (if 127 <s sg \<or> sg <s - 128 then F_V else 0)\<rparr>)"

definition cpu_sbc :: "u8 \<Rightarrow> machine \<Rightarrow> machine" where
  "cpu_sbc v s =
     (let u = (ucast (cpu_a s) - ucast v - (if cpu_flags s AND F_C \<noteq> 0 then 0 else 1) :: u16);
          sg = (scast (cpu_a s) - scast v - (if cpu_flags s AND F_C \<noteq> 0 then 0 else 1) :: u16);
          s = s\<lparr>cpu_a := ucast u\<rparr>
      in s\<lparr>cpu_flags := (cpu_flags s AND NOT (F_N OR F_Z OR F_V OR F_C))
           OR (if cpu_a s AND 0x80 \<noteq> 0 then F_N else 0)
           OR (if cpu_a s \<noteq> 0 then 0 else F_Z)
           OR (if drop_bit 8 u \<noteq> 0 then 0 else F_C)
           OR (if 127 <s sg \<or> sg <s - 128 then F_V else 0)\<rparr>)"

text \<open>Nine-bit rotates through the carry flag; both return the rotated byte.\<close>

definition cpu_rol :: "u8 \<Rightarrow> machine \<Rightarrow> u8 \<times> machine" where
  "cpu_rol v s =
     (let cy = (v AND 0x80 \<noteq> 0);
          v = push_bit 1 v OR (if cpu_flags s AND F_C \<noteq> 0 then 1 else 0);
          s = s\<lparr>cpu_flags := (cpu_flags s AND NOT F_C) OR (if cy then F_C else 0)\<rparr>;
          s = cpu_flags_nz v s
      in (v, s))"

definition cpu_ror :: "u8 \<Rightarrow> machine \<Rightarrow> u8 \<times> machine" where
  "cpu_ror v s =
     (let cy = (v AND 0x01 \<noteq> 0);
          v = (if cpu_flags s AND F_C \<noteq> 0 then 0x80 else 0x00) OR drop_bit 1 v;
          s = s\<lparr>cpu_flags := (cpu_flags s AND NOT F_C) OR (if cy then F_C else 0)\<rparr>;
          s = cpu_flags_nz v s
      in (v, s))"

section \<open>The instruction interpreter\<close>

text \<open>
  \<open>cpu_execute\<close> fetches the opcode and dispatches on it in one \<open>switch\<close>.  The
  switch is a chain of tests in the order of its \<open>case\<close> labels; the source groups the
  labels in sixteen blocks, headed by the comments \<open>/* 00 */\<close> to \<open>/* F0 */\<close>, and the
  chain is cut at those comments: each block is one definition, whose last argument
  \<open>rest\<close> stands for the labels that follow.  A \<open>case\<close> body is a sequence of
  assignments; \<open>addr\<close> and \<open>tmp8\<close> are the locals of the source, \<open>b\<close> and \<open>w\<close> hold
  the byte or word returned by a call that also changes the state.
\<close>

definition cpu_execute_00 :: "u8 \<Rightarrow> machine \<Rightarrow> error + machine \<Rightarrow> error + machine" where
  "cpu_execute_00 opcode s rest =
    (if opcode = 0x00 then \<comment> \<open>BRK\<close>
        Inr (let s = cpu_push8 (ucast (drop_bit 8 (cpu_pc s))) s;
                 s = cpu_push8 (ucast (cpu_pc s AND 0xFF)) s;
                 s = cpu_push8 (cpu_flags s OR F_B OR F_5) s;
                 addr = ucast (rd8 s 0xFFFE);
                 addr = addr + push_bit 8 (ucast (rd8 s 0xFFFF));
                 s = s\<lparr>cpu_flags := cpu_flags s OR F_I\<rparr>;
                 s = s\<lparr>cpu_pc := addr\<rparr>
             in s)
     else if opcode = 0x01 then \<comment> \<open>ORA (ind,X)\<close>
        Inr (let (w, s) = cpu_ind_x s;
                 s = s\<lparr>cpu_a := cpu_a s OR rd8 s w\<rparr>;
                 s = cpu_flags_nz (cpu_a s) s
             in s)
     else if opcode = 0x05 then \<comment> \<open>ORA zpg\<close>
        Inr (let (b, s) = cpu_fetch8 s;
                 s = s\<lparr>cpu_a := cpu_a s OR rd8 s (ucast b)\<rparr>;
                 s = cpu_flags_nz (cpu_a s) s
             in s)
     else if opcode = 0x06 then \<comment> \<open>ASL zpg\<close>
        Inr (let (b, s) = cpu_fetch8 s;
                 addr = ucast b;
                 tmp8 = rd8 s addr;
                 s = s\<lparr>cpu_flags := (cpu_flags s AND NOT F_C) OR (if tmp8 AND 0x80 \<noteq> 0 then F_C else 0)\<rparr>;
                 tmp8 = push_bit 1 tmp8;
                 s = wr8 addr tmp8 s;
                 s = cpu_flags_nz tmp8 s
             in s)
     else if opcode = 0x08 then \<comment> \<open>PHP\<close>
        Inr (let s = cpu_push8 (cpu_flags s OR F_B OR F_5) s
             in s)
     else if opcode = 0x09 then \<comment> \<open>ORA #\<close>
        Inr (let (b, s) = cpu_fetch8 s;
                 s = s\<lparr>cpu_a := cpu_a s OR b\<rparr>;
                 s = cpu_flags_nz (cpu_a s) s
             in s)
     else if opcode = 0x0A then \<comment> \<open>ASL A\<close>
        Inr (let s = s\<lparr>cpu_flags := (cpu_flags s AND NOT F_C) OR (if cpu_a s AND 0x80 \<noteq> 0 then F_C else 0)\<rparr>;
                 s = s\<lparr>cpu_a := push_bit 1 (cpu_a s)\<rparr>;
                 s = cpu_flags_nz (cpu_a s) s
             in s)
     else if opcode = 0x0D then \<comment> \<open>ORA abs\<close>
        Inr (let (w, s) = cpu_fetch16 s;
                 s = s\<lparr>cpu_a := cpu_a s OR rd8 s w\<rparr>;
                 s = cpu_flags_nz (cpu_a s) s
             in s)
     else if opcode = 0x0E then \<comment> \<open>ASL abs\<close>
        Inr (let (w, s) = cpu_fetch16 s;
                 addr = w;
                 tmp8 = rd8 s addr;
                 s = s\<lparr>cpu_flags := (cpu_flags s AND NOT F_C) OR (if tmp8 AND 0x80 \<noteq> 0 then F_C else 0)\<rparr>;
                 tmp8 = push_bit 1 tmp8;
                 s = wr8 addr tmp8 s;
                 s = cpu_flags_nz tmp8 s
             in s)
     else rest)"

definition cpu_execute_10 :: "u8 \<Rightarrow> machine \<Rightarrow> error + machine \<Rightarrow> error + machine" where
  "cpu_execute_10 opcode s rest =
    (if opcode = 0x10 then \<comment> \<open>BPL rel\<close>
        Inr (let (b, s) = cpu_fetch8 s;
                 addr = scast b;
                 s = (if cpu_flags s AND F_N = 0 then s\<lparr>cpu_pc := cpu_pc s + addr\<rparr> else s)
             in s)
     else if opcode = 0x11 then \<comment> \<open>ORA (ind),Y\<close>
        Inr (let (w, s) = cpu_ind_y s;
                 s = s\<lparr>cpu_a := cpu_a s OR rd8 s w\<rparr>;
                 s = cpu_flags_nz (cpu_a s) s
             in s)
     else if opcode = 0x15 then \<comment> \<open>ORA zpg,X\<close>
        Inr (let (b, s) = cpu_fetch8 s;
                 s = s\<lparr>cpu_a := cpu_a s OR rd8 s ((ucast b + ucast (cpu_x s)) AND 0xFF)\<rparr>;
                 s = cpu_flags_nz (cpu_a s) s
             in s)
     else if opcode = 0x16 then \<comment> \<open>ASL zpg,X\<close>
        Inr (let (b, s) = cpu_fetch8 s;
                 addr = (ucast b + ucast (cpu_x s)) AND 0xFF;
                 tmp8 = rd8 s addr;
                 s = s\<lparr>cpu_flags := (cpu_flags s AND NOT F_C) OR (if tmp8 AND 0x80 \<noteq> 0 then F_C else 0)\<rparr>;
                 tmp8 = push_bit 1 tmp8;
                 s = wr8 addr tmp8 s;
                 s = cpu_flags_nz tmp8 s
             in s)
     else if opcode = 0x18 then \<comment> \<open>CLC\<close>
        Inr (let s = s\<lparr>cpu_flags := cpu_flags s AND NOT F_C\<rparr>
             in s)
     else if opcode = 0x19 then \<comment> \<open>ORA abs,Y\<close>
        Inr (let (w, s) = cpu_fetch16 s;
                 s = s\<lparr>cpu_a := cpu_a s OR rd8 s (w + ucast (cpu_y s))\<rparr>;
                 s = cpu_flags_nz (cpu_a s) s
             in s)
     else if opcode = 0x1D then \<comment> \<open>ORA abs,X\<close>
        Inr (let (w, s) = cpu_fetch16 s;
                 s = s\<lparr>cpu_a := cpu_a s OR rd8 s (w + ucast (cpu_x s))\<rparr>;
                 s = cpu_flags_nz (cpu_a s) s
             in s)
     else if opcode = 0x1E then \<comment> \<open>ASL abs,X\<close>
        Inr (let (w, s) = cpu_fetch16 s;
                 addr = w + ucast (cpu_x s);
                 tmp8 = rd8 s addr;
                 s = s\<lparr>cpu_flags := (cpu_flags s AND NOT F_C) OR (if tmp8 AND 0x80 \<noteq> 0 then F_C else 0)\<rparr>;
                 tmp8 = push_bit 1 tmp8;
                 s = wr8 addr tmp8 s;
                 s = cpu_flags_nz tmp8 s
             in s)
     else rest)"

definition cpu_execute_20 :: "u8 \<Rightarrow> machine \<Rightarrow> error + machine \<Rightarrow> error + machine" where
  "cpu_execute_20 opcode s rest =
    (if opcode = 0x20 then \<comment> \<open>JSR abs\<close>
        Inr (let (b, s) = cpu_fetch8 s;
                 addr = ucast b;
                 s = cpu_push8 (ucast (drop_bit 8 (cpu_pc s))) s;
                 s = cpu_push8 (ucast (cpu_pc s AND 0xFF)) s;
                 (b, s) = cpu_fetch8 s;
                 addr = addr OR push_bit 8 (ucast b);
                 s = s\<lparr>cpu_pc := addr\<rparr>
             in s)
     else if opcode = 0x21 then \<comment> \<open>AND (ind,X)\<close>
        Inr (let (w, s) = cpu_ind_x s;
                 s = s\<lparr>cpu_a := cpu_a s AND rd8 s w\<rparr>;
                 s = cpu_flags_nz (cpu_a s) s
             in s)
     else if opcode = 0x24 then \<comment> \<open>BIT zpg\<close>
        Inr (let (b, s) = cpu_fetch8 s;
                 s = cpu_bit (rd8 s (ucast b)) s
             in s)
     else if opcode = 0x25 then \<comment> \<open>AND zpg\<close>
        Inr (let (b, s) = cpu_fetch8 s;
                 s = s\<lparr>cpu_a := cpu_a s AND rd8 s (ucast b)\<rparr>;
                 s = cpu_flags_nz (cpu_a s) s
             in s)
     else if opcode = 0x26 then \<comment> \<open>ROL zpg\<close>
        Inr (let (b, s) = cpu_fetch8 s;
                 addr = ucast b;
                 (b, s) = cpu_rol (rd8 s addr) s;
                 s = wr8 addr b s
             in s)
     else if opcode = 0x28 then \<comment> \<open>PLP\<close>
        Inr (let (b, s) = cpu_pop8 s;
                 s = s\<lparr>cpu_flags := b AND F_PHYSICAL\<rparr>
             in s)
     else if opcode = 0x29 then \<comment> \<open>AND #\<close>
        Inr (let (b, s) = cpu_fetch8 s;
                 s = s\<lparr>cpu_a := cpu_a s AND b\<rparr>;
                 s = cpu_flags_nz (cpu_a s) s
             in s)
     else if opcode = 0x2A then \<comment> \<open>ROL A\<close>
        Inr (let (b, s) = cpu_rol (cpu_a s) s;
                 s = s\<lparr>cpu_a := b\<rparr>
             in s)
     else if opcode = 0x2C then \<comment> \<open>BIT abs\<close>
        Inr (let (w, s) = cpu_fetch16 s;
                 s = cpu_bit (rd8 s w) s
             in s)
     else if opcode = 0x2D then \<comment> \<open>AND abs\<close>
        Inr (let (w, s) = cpu_fetch16 s;
                 s = s\<lparr>cpu_a := cpu_a s AND rd8 s w\<rparr>;
                 s = cpu_flags_nz (cpu_a s) s
             in s)
     else if opcode = 0x2E then \<comment> \<open>ROL abs\<close>
        Inr (let (w, s) = cpu_fetch16 s;
                 addr = w;
                 (b, s) = cpu_rol (rd8 s addr) s;
                 s = wr8 addr b s
             in s)
     else rest)"

definition cpu_execute_30 :: "u8 \<Rightarrow> machine \<Rightarrow> error + machine \<Rightarrow> error + machine" where
  "cpu_execute_30 opcode s rest =
    (if opcode = 0x30 then \<comment> \<open>BMI rel\<close>
        Inr (let (b, s) = cpu_fetch8 s;
                 addr = scast b;
                 s = (if cpu_flags s AND F_N \<noteq> 0 then s\<lparr>cpu_pc := cpu_pc s + addr\<rparr> else s)
             in s)
     else if opcode = 0x31 then \<comment> \<open>AND (ind),Y\<close>
        Inr (let (w, s) = cpu_ind_y s;
                 s = s\<lparr>cpu_a := cpu_a s AND rd8 s w\<rparr>;
                 s = cpu_flags_nz (cpu_a s) s
             in s)
     else if opcode = 0x35 then \<comment> \<open>AND zpg,X\<close>
        Inr (let (b, s) = cpu_fetch8 s;
                 s = s\<lparr>cpu_a := cpu_a s AND rd8 s ((ucast b + ucast (cpu_x s)) AND 0xFF)\<rparr>;
                 s = cpu_flags_nz (cpu_a s) s
             in s)
     else if opcode = 0x36 then \<comment> \<open>ROL zpg,X\<close>
        Inr (let (b, s) = cpu_fetch8 s;
                 addr = (ucast b + ucast (cpu_x s)) AND 0xFF;
                 (b, s) = cpu_rol (rd8 s addr) s;
                 s = wr8 addr b s
             in s)
     else if opcode = 0x38 then \<comment> \<open>SEC\<close>
        Inr (let s = s\<lparr>cpu_flags := cpu_flags s OR F_C\<rparr>
             in s)
     else if opcode = 0x39 then \<comment> \<open>AND abs,Y\<close>
        Inr (let (w, s) = cpu_fetch16 s;
                 s = s\<lparr>cpu_a := cpu_a s AND rd8 s (w + ucast (cpu_y s))\<rparr>;
                 s = cpu_flags_nz (cpu_a s) s
             in s)
     else if opcode = 0x3D then \<comment> \<open>AND abs,X\<close>
        Inr (let (w, s) = cpu_fetch16 s;
                 s = s\<lparr>cpu_a := cpu_a s AND rd8 s (w + ucast (cpu_x s))\<rparr>;
                 s = cpu_flags_nz (cpu_a s) s
             in s)
     else if opcode = 0x3E then \<comment> \<open>ROL abs,X\<close>
        Inr (let (w, s) = cpu_fetch16 s;
                 addr = w + ucast (cpu_x s);
                 (b, s) = cpu_rol (rd8 s addr) s;
                 s = wr8 addr b s
             in s)
     else rest)"

definition cpu_execute_40 :: "u8 \<Rightarrow> machine \<Rightarrow> error + machine \<Rightarrow> error + machine" where
  "cpu_execute_40 opcode s rest =
    (if opcode = 0x40 then \<comment> \<open>RTI\<close>
        Inr (let (b, s) = cpu_pop8 s;
                 s = s\<lparr>cpu_flags := b AND F_PHYSICAL\<rparr>;
                 (b, s) = cpu_pop8 s;
                 addr = ucast b;
                 (b, s) = cpu_pop8 s;
                 addr = addr + push_bit 8 (ucast b);
                 s = s\<lparr>cpu_pc := addr\<rparr>
             in s)
     else if opcode = 0x41 then \<comment> \<open>EOR (ind,X)\<close>
        Inr (let (w, s) = cpu_ind_x s;
                 s = s\<lparr>cpu_a := cpu_a s XOR rd8 s w\<rparr>;
                 s = cpu_flags_nz (cpu_a s) s
             in s)
     else if opcode = 0x45 then \<comment> \<open>EOR zpg\<close>
        Inr (let (b, s) = cpu_fetch8 s;
                 s = s\<lparr>cpu_a := cpu_a s XOR rd8 s (ucast b)\<rparr>;
                 s = cpu_flags_nz (cpu_a s) s
             in s)
     else if opcode = 0x46 then \<comment> \<open>LSR zpg\<close>
        Inr (let (b, s) = cpu_fetch8 s;
                 addr = ucast b;
                 tmp8 = rd8 s addr;
                 s = s\<lparr>cpu_flags := (cpu_flags s AND NOT F_C) OR (if tmp8 AND 0x01 \<noteq> 0 then F_C else 0)\<rparr>;
                 tmp8 = drop_bit 1 tmp8;
                 s = wr8 addr tmp8 s;
                 s = cpu_flags_nz tmp8 s
             in s)
     else if opcode = 0x48 then \<comment> \<open>PHA\<close>
        Inr (let s = cpu_push8 (cpu_a s) s
             in s)
     else if opcode = 0x49 then \<comment> \<open>EOR #\<close>
        Inr (let (b, s) = cpu_fetch8 s;
                 s = s\<lparr>cpu_a := cpu_a s XOR b\<rparr>;
                 s = cpu_flags_nz (cpu_a s) s
             in s)
     else if opcode = 0x4A then \<comment> \<open>LSR A\<close>
        Inr (let s = s\<lparr>cpu_flags := (cpu_flags s AND NOT F_C) OR (if cpu_a s AND 0x01 \<noteq> 0 then F_C else 0)\<rparr>;
                 s = s\<lparr>cpu_a := drop_bit 1 (cpu_a s)\<rparr>;
                 s = cpu_flags_nz (cpu_a s) s
             in s)
     else if opcode = 0x4C then \<comment> \<open>JMP abs\<close>
        Inr (let (w, s) = cpu_fetch16 s;
                 s = s\<lparr>cpu_pc := w\<rparr>
             in s)
     else if opcode = 0x4D then \<comment> \<open>EOR abs\<close>
        Inr (let (w, s) = cpu_fetch16 s;
                 s = s\<lparr>cpu_a := cpu_a s XOR rd8 s w\<rparr>;
                 s = cpu_flags_nz (cpu_a s) s
             in s)
     else if opcode = 0x4E then \<comment> \<open>LSR abs\<close>
        Inr (let (w, s) = cpu_fetch16 s;
                 addr = w;
                 tmp8 = rd8 s addr;
                 s = s\<lparr>cpu_flags := (cpu_flags s AND NOT F_C) OR (if tmp8 AND 0x01 \<noteq> 0 then F_C else 0)\<rparr>;
                 tmp8 = drop_bit 1 tmp8;
                 s = wr8 addr tmp8 s;
                 s = cpu_flags_nz tmp8 s
             in s)
     else rest)"

definition cpu_execute_50 :: "u8 \<Rightarrow> machine \<Rightarrow> error + machine \<Rightarrow> error + machine" where
  "cpu_execute_50 opcode s rest =
    (if opcode = 0x50 then \<comment> \<open>BVC rel\<close>
        Inr (let (b, s) = cpu_fetch8 s;
                 addr = scast b;
                 s = (if cpu_flags s AND F_V = 0 then s\<lparr>cpu_pc := cpu_pc s + addr\<rparr> else s)
             in s)
     else if opcode = 0x51 then \<comment> \<open>EOR (ind),Y\<close>
        Inr (let (w, s) = cpu_ind_y s;
                 s = s\<lparr>cpu_a := cpu_a s XOR rd8 s w\<rparr>;
                 s = cpu_flags_nz (cpu_a s) s
             in s)
     else if opcode = 0x55 then \<comment> \<open>EOR zpg,X\<close>
        Inr (let (b, s) = cpu_fetch8 s;
                 s = s\<lparr>cpu_a := cpu_a s XOR rd8 s ((ucast b + ucast (cpu_x s)) AND 0xFF)\<rparr>;
                 s = cpu_flags_nz (cpu_a s) s
             in s)
     else if opcode = 0x56 then \<comment> \<open>LSR zpg,X\<close>
        Inr (let (b, s) = cpu_fetch8 s;
                 addr = (ucast b + ucast (cpu_x s)) AND 0xFF;
                 tmp8 = rd8 s addr;
                 s = s\<lparr>cpu_flags := (cpu_flags s AND NOT F_C) OR (if tmp8 AND 0x01 \<noteq> 0 then F_C else 0)\<rparr>;
                 tmp8 = drop_bit 1 tmp8;
                 s = wr8 addr tmp8 s;
                 s = cpu_flags_nz tmp8 s
             in s)
     else if opcode = 0x58 then \<comment> \<open>CLI\<close>
        Inr (let s = s\<lparr>cpu_flags := cpu_flags s AND NOT F_I\<rparr>
             in s)
     else if opcode = 0x59 then \<comment> \<open>EOR abs,Y\<close>
        Inr (let (w, s) = cpu_fetch16 s;
                 s = s\<lparr>cpu_a := cpu_a s XOR rd8 s (w + ucast (cpu_y s))\<rparr>;
                 s = cpu_flags_nz (cpu_a s) s
             in s)
     else if opcode = 0x5D then \<comment> \<open>EOR abs,X\<close>
        Inr (let (w, s) = cpu_fetch16 s;
                 s = s\<lparr>cpu_a := cpu_a s XOR rd8 s (w + ucast (cpu_x s))\<rparr>;
                 s = cpu_flags_nz (cpu_a s) s
             in s)
     else if opcode = 0x5E then \<comment> \<open>LSR abs,X\<close>
        Inr (let (w, s) = cpu_fetch16 s;
                 addr = w + ucast (cpu_x s);
                 tmp8 = rd8 s addr;
                 s = s\<lparr>cpu_flags := (cpu_flags s AND NOT F_C) OR (if tmp8 AND 0x01 \<noteq> 0 then F_C else 0)\<rparr>;
                 tmp8 = drop_bit 1 tmp8;
                 s = wr8 addr tmp8 s;
                 s = cpu_flags_nz tmp8 s
             in s)
     else rest)"

definition cpu_execute_60 :: "u8 \<Rightarrow> machine \<Rightarrow> error + machine \<Rightarrow> error + machine" where
  "cpu_execute_60 opcode s rest =
    (if opcode = 0x60 then \<comment> \<open>RTS\<close>
        Inr (let (b, s) = cpu_pop8 s;
                 addr = ucast b;
                 (b, s) = cpu_pop8 s;
                 addr = addr OR push_bit 8 (ucast b);
                 s = s\<lparr>cpu_pc := addr + 1\<rparr>
             in s)
     else if opcode = 0x61 then \<comment> \<open>ADC (ind,X)\<close>
        Inr (let (w, s) = cpu_ind_x s;
                 s = cpu_adc (rd8 s w) s
             in s)
     else if opcode = 0x65 then \<comment> \<open>ADC zpg\<close>
        Inr (let (b, s) = cpu_fetch8 s;
                 s = cpu_adc (rd8 s (ucast b)) s
             in s)
     else if opcode = 0x66 then \<comment> \<open>ROR zpg\<close>
        Inr (let (b, s) = cpu_fetch8 s;
                 addr = ucast b;
                 (b, s) = cpu_ror (rd8 s addr) s;
                 s = wr8 addr b s
             in s)
     else if opcode = 0x68 then \<comment> \<open>PLA\<close>
        Inr (let (b, s) = cpu_pop8 s;
                 s = s\<lparr>cpu_a := b\<rparr>
             in s)
     else if opcode = 0x69 then \<comment> \<open>ADC #\<close>
        Inr (let (b, s) = cpu_fetch8 s;
                 s = cpu_adc b s
             in s)
     else if opcode = 0x6A then \<comment> \<open>ROR A\<close>
        Inr (let (b, s) = cpu_ror (cpu_a s) s;
                 s = s\<lparr>cpu_a := b\<rparr>
             in s)
     else if opcode = 0x6C then \<comment> \<open>JMP (ind)\<close>
        Inr (let (w, s) = cpu_fetch16 s;
                 addr = w;
                 s = s\<lparr>cpu_pc := ucast (rd8 s addr)\<rparr>;
                 s = s\<lparr>cpu_pc := cpu_pc s + push_bit 8 (ucast (rd8 s (addr + 1)))\<rparr>
             in s)
     else if opcode = 0x6D then \<comment> \<open>ADC abs\<close>
        Inr (let (w, s) = cpu_fetch16 s;
                 s = cpu_adc (rd8 s w) s
             in s)
     else if opcode = 0x6E then \<comment> \<open>ROR abs\<close>
        Inr (let (w, s) = cpu_fetch16 s;
                 addr = w;
                 (b, s) = cpu_ror (rd8 s addr) s;
                 s = wr8 addr b s
             in s)
     else rest)"

definition cpu_execute_70 :: "u8 \<Rightarrow> machine \<Rightarrow> error + machine \<Rightarrow> error + machine" where
  "cpu_execute_70 opcode s rest =
    (if opcode = 0x70 then \<comment> \<open>BVS rel\<close>
        Inr (let b = rd8 s (cpu_pc s);
                 s = s\<lparr>cpu_pc := cpu_pc s + 1\<rparr>;
                 addr = scast b;
                 s = (if cpu_flags s AND F_N \<noteq> 0 then s\<lparr>cpu_pc := cpu_pc s + addr\<rparr> else s)
             in s)
     else if opcode = 0x71 then \<comment> \<open>ADC (ind),Y\<close>
        Inr (let (w, s) = cpu_ind_y s;
                 s = cpu_adc (rd8 s w) s
             in s)
     else if opcode = 0x75 then \<comment> \<open>ADC zpg,X\<close>
        Inr (let (b, s) = cpu_fetch8 s;
                 s = cpu_adc (rd8 s ((ucast b + ucast (cpu_x s)) AND 0xFF)) s
             in s)
     else if opcode = 0x76 then \<comment> \<open>ROR zpg,X\<close>
        Inr (let (b, s) = cpu_fetch8 s;
                 addr = (ucast b + ucast (cpu_x s)) AND 0xFF;
                 (b, s) = cpu_ror (rd8 s addr) s;
                 s = wr8 addr b s
             in s)
     else if opcode = 0x78 then \<comment> \<open>SEI\<close>
        Inr (let s = s\<lparr>cpu_flags := cpu_flags s OR F_I\<rparr>
             in s)
     else if opcode = 0x79 then \<comment> \<open>ADC abs,Y\<close>
        Inr (let (w, s) = cpu_fetch16 s;
                 s = cpu_adc (rd8 s (w + ucast (cpu_y s))) s
             in s)
     else if opcode = 0x7D then \<comment> \<open>ADC abs,X\<close>
        Inr (let (w, s) = cpu_fetch16 s;
                 s = cpu_adc (rd8 s (w + ucast (cpu_x s))) s
             in s)
     else if opcode = 0x7E then \<comment> \<open>ROR abs,X\<close>
        Inr (let (w, s) = cpu_fetch16 s;
                 addr = w + ucast (cpu_x s);
                 (b, s) = cpu_ror (rd8 s addr) s;
                 s = wr8 addr b s
             in s)
     else rest)"

definition cpu_execute_80 :: "u8 \<Rightarrow> machine \<Rightarrow> error + machine \<Rightarrow> error + machine" where
  "cpu_execute_80 opcode s rest =
    (if opcode = 0x81 then \<comment> \<open>STA (ind,X)\<close>
        Inr (let (w, s) = cpu_ind_x s;
                 s = wr8 w (cpu_a s) s
             in s)
     else if opcode = 0x84 then \<comment> \<open>STY zpg\<close>
        Inr (let (b, s) = cpu_fetch8 s;
                 s = wr8 (ucast b) (cpu_y s) s
             in s)
     else if opcode = 0x85 then \<comment> \<open>STA zpg\<close>
        Inr (let (b, s) = cpu_fetch8 s;
                 s = wr8 (ucast b) (cpu_a s) s
             in s)
     else if opcode = 0x86 then \<comment> \<open>STX zpg\<close>
        Inr (let (b, s) = cpu_fetch8 s;
                 s = wr8 (ucast b) (cpu_x s) s
             in s)
     else if opcode = 0x88 then \<comment> \<open>DEY\<close>
        Inr (let s = s\<lparr>cpu_y := cpu_y s - 1\<rparr>;
                 s = cpu_flags_nz (cpu_y s) s
             in s)
     else if opcode = 0x8A then \<comment> \<open>TXA\<close>
        Inr (let s = s\<lparr>cpu_a := cpu_x s\<rparr>;
                 s = cpu_flags_nz (cpu_a s) s
             in s)
     else if opcode = 0x8C then \<comment> \<open>STY abs\<close>
        Inr (let (w, s) = cpu_fetch16 s;
                 s = wr8 w (cpu_y s) s
             in s)
     else if opcode = 0x8D then \<comment> \<open>STA abs\<close>
        Inr (let (w, s) = cpu_fetch16 s;
                 s = wr8 w (cpu_a s) s
             in s)
     else if opcode = 0x8E then \<comment> \<open>STX abs\<close>
        Inr (let (w, s) = cpu_fetch16 s;
                 s = wr8 w (cpu_x s) s
             in s)
     else rest)"

definition cpu_execute_90 :: "u8 \<Rightarrow> machine \<Rightarrow> error + machine \<Rightarrow> error + machine" where
  "cpu_execute_90 opcode s rest =
    (if opcode = 0x90 then \<comment> \<open>BCC rel\<close>
        Inr (let (b, s) = cpu_fetch8 s;
                 addr = scast b;
                 s = (if cpu_flags s AND F_C = 0 then s\<lparr>cpu_pc := cpu_pc s + addr\<rparr> else s)
             in s)
     else if opcode = 0x91 then \<comment> \<open>STA (ind),Y\<close>
        Inr (let (w, s) = cpu_ind_y s;
                 s = wr8 w (cpu_a s) s
             in s)
     else if opcode = 0x94 then \<comment> \<open>STY zpg,X\<close>
        Inr (let (b, s) = cpu_fetch8 s;
                 s = wr8 ((ucast b + ucast (cpu_x s)) AND 0xFF) (cpu_y s) s
             in s)
     else if opcode = 0x95 then \<comment> \<open>STA zpg,X\<close>
        Inr (let (b, s) = cpu_fetch8 s;
                 s = wr8 ((ucast b + ucast (cpu_x s)) AND 0xFF) (cpu_a s) s
             in s)
     else if opcode = 0x96 then \<comment> \<open>STX zpg,Y\<close>
        Inr (let (b, s) = cpu_fetch8 s;
                 s = wr8 ((ucast b + ucast (cpu_y s)) AND 0xFF) (cpu_x s) s
             in s)
     else if opcode = 0x98 then \<comment> \<open>TYA\<close>
        Inr (let s = s\<lparr>cpu_a := cpu_y s\<rparr>;
                 s = cpu_flags_nz (cpu_a s) s
             in s)
     else if opcode = 0x99 then \<comment> \<open>STA abs,Y\<close>
        Inr (let (w, s) = cpu_fetch16 s;
                 s = wr8 (w + ucast (cpu_y s)) (cpu_a s) s
             in s)
     else if opcode = 0x9A then \<comment> \<open>TXS\<close>
        Inr (let s = s\<lparr>cpu_sp := cpu_x s\<rparr>
             in s)
     else if opcode = 0x9D then \<comment> \<open>STA abs,X\<close>
        Inr (let (w, s) = cpu_fetch16 s;
                 s = wr8 (w + ucast (cpu_x s)) (cpu_a s) s
             in s)
     else rest)"

definition cpu_execute_A0 :: "u8 \<Rightarrow> machine \<Rightarrow> error + machine \<Rightarrow> error + machine" where
  "cpu_execute_A0 opcode s rest =
    (if opcode = 0xA0 then \<comment> \<open>LDY #\<close>
        Inr (let (b, s) = cpu_fetch8 s;
                 s = s\<lparr>cpu_y := b\<rparr>;
                 s = cpu_flags_nz (cpu_y s) s
             in s)
     else if opcode = 0xA1 then \<comment> \<open>LDA (ind,X)\<close>
        Inr (let (w, s) = cpu_ind_x s;
                 s = s\<lparr>cpu_a := rd8 s w\<rparr>;
                 s = cpu_flags_nz (cpu_a s) s
             in s)
     else if opcode = 0xA2 then \<comment> \<open>LDX #\<close>
        Inr (let (b, s) = cpu_fetch8 s;
                 s = s\<lparr>cpu_x := b\<rparr>;
                 s = cpu_flags_nz (cpu_x s) s
             in s)
     else if opcode = 0xA4 then \<comment> \<open>LDY zpg\<close>
        Inr (let (b, s) = cpu_fetch8 s;
                 s = s\<lparr>cpu_y := rd8 s (ucast b)\<rparr>;
                 s = cpu_flags_nz (cpu_y s) s
             in s)
     else if opcode = 0xA5 then \<comment> \<open>LDA zpg\<close>
        Inr (let (b, s) = cpu_fetch8 s;
                 s = s\<lparr>cpu_a := rd8 s (ucast b)\<rparr>;
                 s = cpu_flags_nz (cpu_a s) s
             in s)
     else if opcode = 0xA6 then \<comment> \<open>LDX zpg\<close>
        Inr (let (b, s) = cpu_fetch8 s;
                 s = s\<lparr>cpu_x := rd8 s (ucast b)\<rparr>;
                 s = cpu_flags_nz (cpu_x s) s
             in s)
     else if opcode = 0xA8 then \<comment> \<open>TAY\<close>
        Inr (let s = s\<lparr>cpu_y := cpu_a s\<rparr>;
                 s = cpu_flags_nz (cpu_y s) s
             in s)
     else if opcode = 0xA9 then \<comment> \<open>LDA #\<close>
        Inr (let (b, s) = cpu_fetch8 s;
                 s = s\<lparr>cpu_a := b\<rparr>
             in s)
     else if opcode = 0xAA then \<comment> \<open>TAX\<close>
        Inr (let s = s\<lparr>cpu_x := cpu_a s\<rparr>;
                 s = cpu_flags_nz (cpu_x s) s
             in s)
     else if opcode = 0xAB \<or> opcode = 0xAC then \<comment> \<open>0xAB (marked --) falls through to LDY abs\<close>
        Inr (let (w, s) = cpu_fetch16 s;
                 s = s\<lparr>cpu_y := rd8 s w\<rparr>;
                 s = cpu_flags_nz (cpu_y s) s
             in s)
     else if opcode = 0xAD then \<comment> \<open>LDA abs\<close>
        Inr (let (w, s) = cpu_fetch16 s;
                 s = s\<lparr>cpu_a := rd8 s w\<rparr>;
                 s = cpu_flags_nz (cpu_a s) s
             in s)
     else if opcode = 0xAE then \<comment> \<open>LDX abs\<close>
        Inr (let (w, s) = cpu_fetch16 s;
                 s = s\<lparr>cpu_x := rd8 s w\<rparr>;
                 s = cpu_flags_nz (cpu_x s) s
             in s)
     else rest)"

definition cpu_execute_B0 :: "u8 \<Rightarrow> machine \<Rightarrow> error + machine \<Rightarrow> error + machine" where
  "cpu_execute_B0 opcode s rest =
    (if opcode = 0xB0 then \<comment> \<open>BCS rel\<close>
        Inr (let (b, s) = cpu_fetch8 s;
                 addr = scast b;
                 s = (if cpu_flags s AND F_C \<noteq> 0 then s\<lparr>cpu_pc := cpu_pc s + addr\<rparr> else s)
             in s)
     else if opcode = 0xB1 then \<comment> \<open>LDA (ind),Y\<close>
        Inr (let (w, s) = cpu_ind_y s;
                 s = s\<lparr>cpu_a := rd8 s w\<rparr>;
                 s = cpu_flags_nz (cpu_a s) s
             in s)
     else if opcode = 0xB4 then \<comment> \<open>LDY zpg,X\<close>
        Inr (let (b, s) = cpu_fetch8 s;
                 s = s\<lparr>cpu_y := rd8 s ((ucast b + ucast (cpu_x s)) AND 0xFF)\<rparr>;
                 s = cpu_flags_nz (cpu_y s) s
             in s)
     else if opcode = 0xB5 then \<comment> \<open>LDA zpg,X\<close>
        Inr (let (b, s) = cpu_fetch8 s;
                 s = s\<lparr>cpu_a := rd8 s ((ucast b + ucast (cpu_x s)) AND 0xFF)\<rparr>;
                 s = cpu_flags_nz (cpu_a s) s
             in s)
     else if opcode = 0xB6 then \<comment> \<open>LDX zpg,Y\<close>
        Inr (let (b, s) = cpu_fetch8 s;
                 s = s\<lparr>cpu_x := rd8 s ((ucast b + ucast (cpu_y s)) AND 0xFF)\<rparr>;
                 s = cpu_flags_nz (cpu_x s) s
             in s)
     else if opcode = 0xB8 then \<comment> \<open>CLV\<close>
        Inr (let s = s\<lparr>cpu_flags := cpu_flags s AND NOT F_V\<rparr>
             in s)
     else if opcode = 0xB9 then \<comment> \<open>LDA abs,Y\<close>
        Inr (let (w, s) = cpu_fetch16 s;
                 s = s\<lparr>cpu_a := rd8 s (w + ucast (cpu_y s))\<rparr>;
                 s = cpu_flags_nz (cpu_a s) s
             in s)
     else if opcode = 0xBA then \<comment> \<open>TSX\<close>
        Inr (let s = s\<lparr>cpu_x := cpu_sp s\<rparr>;
                 s = cpu_flags_nz (cpu_x s) s
             in s)
     else if opcode = 0xBC then \<comment> \<open>LDY abs,X\<close>
        Inr (let (w, s) = cpu_fetch16 s;
                 s = s\<lparr>cpu_y := rd8 s (w + ucast (cpu_x s))\<rparr>;
                 s = cpu_flags_nz (cpu_y s) s
             in s)
     else if opcode = 0xBD then \<comment> \<open>LDA abs,X\<close>
        Inr (let (w, s) = cpu_fetch16 s;
                 s = s\<lparr>cpu_a := rd8 s (w + ucast (cpu_x s))\<rparr>;
                 s = cpu_flags_nz (cpu_a s) s
             in s)
     else if opcode = 0xBE then \<comment> \<open>LDX abs,Y\<close>
        Inr (let (w, s) = cpu_fetch16 s;
                 s = s\<lparr>cpu_x := rd8 s (w + ucast (cpu_y s))\<rparr>;
                 s = cpu_flags_nz (cpu_x s) s
             in s)
     else rest)"

definition cpu_execute_C0 :: "u8 \<Rightarrow> machine \<Rightarrow> error + machine \<Rightarrow> error + machine" where
  "cpu_execute_C0 opcode s rest =
    (if opcode = 0xC0 then \<comment> \<open>CPY #\<close>
        Inr (let (b, s) = cpu_fetch8 s;
                 s = cpu_flags_nzc (ucast (cpu_y s) - ucast b) s
             in s)
     else if opcode = 0xC1 then \<comment> \<open>CMP (ind,X)\<close>
        Inr (let (w, s) = cpu_ind_x s;
                 s = cpu_flags_nzc (ucast (cpu_a s) - ucast (rd8 s w)) s
             in s)
     else if opcode = 0xC4 then \<comment> \<open>CPY zpg\<close>
        Inr (let (b, s) = cpu_fetch8 s;
                 s = cpu_flags_nzc (ucast (cpu_y s) - ucast (rd8 s (ucast b))) s
             in s)
     else if opcode = 0xC5 then \<comment> \<open>CMP zpg\<close>
        Inr (let (b, s) = cpu_fetch8 s;
                 s = cpu_flags_nzc (ucast (cpu_a s) - ucast (rd8 s (ucast b))) s
             in s)
     else if opcode = 0xC6 then \<comment> \<open>DEC zpg\<close>
        Inr (let (b, s) = cpu_fetch8 s;
                 addr = ucast b;
                 tmp8 = rd8 s addr;
                 tmp8 = tmp8 - 1;
                 s = wr8 addr tmp8 s;
                 s = cpu_flags_nz tmp8 s
             in s)
     else if opcode = 0xC8 then \<comment> \<open>INY\<close>
        Inr (let s = s\<lparr>cpu_y := cpu_y s + 1\<rparr>;
                 s = cpu_flags_nz (cpu_y s) s
             in s)
     else if opcode = 0xC9 then \<comment> \<open>CMP #\<close>
        Inr (let (b, s) = cpu_fetch8 s;
                 s = cpu_flags_nzc (ucast (cpu_a s) - ucast b) s
             in s)
     else if opcode = 0xCA then \<comment> \<open>DEX\<close>
        Inr (let s = s\<lparr>cpu_x := cpu_x s - 1\<rparr>;
                 s = cpu_flags_nz (cpu_x s) s
             in s)
     else if opcode = 0xCC then \<comment> \<open>CPY abs\<close>
        Inr (let (w, s) = cpu_fetch16 s;
                 s = cpu_flags_nzc (ucast (cpu_y s) - ucast (rd8 s w)) s
             in s)
     else if opcode = 0xCD then \<comment> \<open>CMP abs\<close>
        Inr (let (w, s) = cpu_fetch16 s;
                 s = cpu_flags_nzc (ucast (cpu_a s) - ucast (rd8 s w)) s
             in s)
     else if opcode = 0xCE then \<comment> \<open>DEC abs\<close>
        Inr (let (w, s) = cpu_fetch16 s;
                 addr = w;
                 tmp8 = rd8 s addr;
                 tmp8 = tmp8 - 1;
                 s = wr8 addr tmp8 s;
                 s = cpu_flags_nz tmp8 s
             in s)
     else rest)"

definition cpu_execute_D0 :: "u8 \<Rightarrow> machine \<Rightarrow> error + machine \<Rightarrow> error + machine" where
  "cpu_execute_D0 opcode s rest =
    (if opcode = 0xD0 then \<comment> \<open>BNE rel\<close>
        Inr (let (b, s) = cpu_fetch8 s;
                 addr = scast b;
                 s = (if cpu_flags s AND F_Z = 0 then s\<lparr>cpu_pc := cpu_pc s + addr\<rparr> else s)
             in s)
     else if opcode = 0xD1 then \<comment> \<open>CMP (ind),Y\<close>
        Inr (let (w, s) = cpu_ind_y s;
                 s = cpu_flags_nzc (ucast (cpu_a s) - ucast (rd8 s w)) s
             in s)
     else if opcode = 0xD5 then \<comment> \<open>CMP zpg,X\<close>
        Inr (let (b, s) = cpu_fetch8 s;
                 s = cpu_flags_nzc (ucast (cpu_a s) - ucast (rd8 s ((ucast b + ucast (cpu_x s)) AND 0xFF))) s
             in s)
     else if opcode = 0xD6 then \<comment> \<open>DEC zpg,X\<close>
        Inr (let (b, s) = cpu_fetch8 s;
                 addr = (ucast b + ucast (cpu_x s)) AND 0xFF;
                 tmp8 = rd8 s addr;
                 tmp8 = tmp8 - 1;
                 s = wr8 addr tmp8 s;
                 s = cpu_flags_nz tmp8 s
             in s)
     else if opcode = 0xD8 then \<comment> \<open>CLD\<close>
        Inr (let s = s\<lparr>cpu_flags := cpu_flags s AND NOT F_C\<rparr>
             in s)
     else if opcode = 0xD9 then \<comment> \<open>CMP abs,Y\<close>
        Inr (let (w, s) = cpu_fetch16 s;
                 s = cpu_flags_nzc (ucast (cpu_a s) - ucast (rd8 s (w + ucast (cpu_y s)))) s
             in s)
     else if opcode = 0xDD then \<comment> \<open>CMP abs,X\<close>
        Inr (let (w, s) = cpu_fetch16 s;
                 s = cpu_flags_nzc (ucast (cpu_a s) - ucast (rd8 s (w + ucast (cpu_x s)))) s
             in s)
     else if opcode = 0xDE then \<comment> \<open>DEC abs,X\<close>
        Inr (let (w, s) = cpu_fetch16 s;
                 addr = w + ucast (cpu_x s);
                 tmp8 = rd8 s addr;
                 tmp8 = tmp8 - 1;
                 s = wr8 addr tmp8 s;
                 s = cpu_flags_nz tmp8 s
             in s)
     else rest)"

definition cpu_execute_E0 :: "u8 \<Rightarrow> machine \<Rightarrow> error + machine \<Rightarrow> error + machine" where
  "cpu_execute_E0 opcode s rest =
    (if opcode = 0xE0 then \<comment> \<open>CPX #\<close>
        Inr (let (b, s) = cpu_fetch8 s;
                 s = cpu_flags_nzc (ucast (cpu_x s) - ucast b) s
             in s)
     else if opcode = 0xE1 then \<comment> \<open>SBC (ind,X)\<close>
        Inr (let (w, s) = cpu_ind_x s;
                 s = cpu_sbc (rd8 s w) s
             in s)
     else if opcode = 0xE4 then \<comment> \<open>CPX zpg\<close>
        Inr (let (b, s) = cpu_fetch8 s;
                 s = cpu_flags_nzc (ucast (cpu_x s) - ucast (rd8 s (ucast b))) s
             in s)
     else if opcode = 0xE5 then \<comment> \<open>SBC zpg\<close>
        Inr (let (b, s) = cpu_fetch8 s;
                 s = cpu_sbc (rd8 s (ucast b)) s
             in s)
     else if opcode = 0xE6 then \<comment> \<open>INC zpg\<close>
        Inr (let (b, s) = cpu_fetch8 s;
                 addr = ucast b;
                 tmp8 = rd8 s addr;
                 tmp8 = tmp8 + 1;
                 s = wr8 addr tmp8 s;
                 s = cpu_flags_nz tmp8 s
             in s)
     else if opcode = 0xE8 then \<comment> \<open>INX\<close>
        Inr (let s = s\<lparr>cpu_x := cpu_x s + 1\<rparr>;
                 s = cpu_flags_nz (cpu_x s) s
             in s)
     else if opcode = 0xE9 then \<comment> \<open>SBC #\<close>
        Inr (let (b, s) = cpu_fetch8 s;
                 s = cpu_sbc b s
             in s)
     else if opcode = 0xEA then \<comment> \<open>NOP\<close>
        Inr s
     else if opcode = 0xEC then \<comment> \<open>CPX abs\<close>
        Inr (let (b, s) = cpu_fetch8 s;
                 s = cpu_flags_nzc (ucast (cpu_x s) - ucast b) s
             in s)
     else if opcode = 0xED then \<comment> \<open>SBC abs\<close>
        Inr (let (w, s) = cpu_fetch16 s;
                 s = cpu_sbc (rd8 s w) s
             in s)
     else if opcode = 0xEE then \<comment> \<open>INC abs\<close>
        Inr (let (w, s) = cpu_fetch16 s;
                 addr = w;
                 tmp8 = rd8 s addr;
                 tmp8 = tmp8 + 1;
                 s = wr8 addr tmp8 s;
                 s = cpu_flags_nz tmp8 s
             in s)
     else rest)"

definition cpu_execute_F0 :: "u8 \<Rightarrow> machine \<Rightarrow> error + machine \<Rightarrow> error + machine" where
  "cpu_execute_F0 opcode s rest =
    (if opcode = 0xF0 then \<comment> \<open>BEQ rel\<close>
        Inr (let (b, s) = cpu_fetch8 s;
                 addr = scast b;
                 s = (if cpu_flags s AND F_Z \<noteq> 0 then s\<lparr>cpu_pc := cpu_pc s + addr\<rparr> else s)
             in s)
     else if opcode = 0xF1 then \<comment> \<open>SBC (ind),Y\<close>
        Inr (let (w, s) = cpu_ind_y s;
                 s = cpu_sbc (rd8 s w) s
             in s)
     else if opcode = 0xF5 then \<comment> \<open>SBC zpg,X\<close>
        Inr (let (b, s) = cpu_fetch8 s;
                 s = cpu_sbc (rd8 s ((ucast b + ucast (cpu_x s)) AND 0xFF)) s
             in s)
     else if opcode = 0xF6 then \<comment> \<open>INC zpg,X\<close>
        Inr (let (b, s) = cpu_fetch8 s;
                 addr = (ucast b + ucast (cpu_x s)) AND 0xFF;
                 tmp8 = rd8 s addr;
                 tmp8 = tmp8 + 1;
                 s = wr8 addr tmp8 s;
                 s = cpu_flags_nz tmp8 s
             in s)
     else if opcode = 0xF8 then \<comment> \<open>SED\<close>
        Inr (let s = s\<lparr>cpu_flags := cpu_flags s OR F_D\<rparr>
             in s)
     else if opcode = 0xF9 then \<comment> \<open>SBC abs,Y\<close>
        Inr (let (w, s) = cpu_fetch16 s;
                 s = cpu_sbc (rd8 s (w + ucast (cpu_y s))) s
             in s)
     else if opcode = 0xFD then \<comment> \<open>SBC abs,X\<close>
        Inr (let (w, s) = cpu_fetch16 s;
                 s = cpu_sbc (rd8 s (w + ucast (cpu_x s))) s
             in s)
     else if opcode = 0xFE then \<comment> \<open>INC abs,X\<close>
        Inr (let (w, s) = cpu_fetch16 s;
                 addr = w + ucast (cpu_x s);
                 tmp8 = rd8 s addr;
                 tmp8 = tmp8 + 1;
                 s = wr8 addr tmp8 s;
                 s = cpu_flags_nz tmp8 s
             in s)
     else rest)"

definition cpu_execute :: "machine \<Rightarrow> error + machine" where
  "cpu_execute s =
     (let (opcode, s) = cpu_fetch8 s in
      cpu_execute_00 opcode s (
      cpu_execute_10 opcode s (
      cpu_execute_20 opcode s (
      cpu_execute_30 opcode s (
      cpu_execute_40 opcode s (
      cpu_execute_50 opcode s (
      cpu_execute_60 opcode s (
      cpu_execute_70 opcode s (
      cpu_execute_80 opcode s (
      cpu_execute_90 opcode s (
      cpu_execute_A0 opcode s (
      cpu_execute_B0 opcode s (
      cpu_execute_C0 opcode s (
      cpu_execute_D0 opcode s (
      cpu_execute_E0 opcode s (
      cpu_execute_F0 opcode s (
      Inl (Undefined_opcode opcode))))))))))))))))))"

section \<open>The disassembler (dis-6502.c)\<close>

text \<open>
  \<open>dis\<close> prints one line with \<open>printf\<close>; the model returns the characters printed.
  \<open>hex2\<close> and \<open>hex4\<close> are the conversions \<open>%02X\<close> and \<open>%04X\<close> applied to a byte and
  to a 16-bit word: upper-case digits, padded with zeros to the width, which such a value
  never exceeds.  The three tables are the ones of the source: \<open>mne_idx\<close> has five
  initialisers and \<open>addrmode\<close> three, and C sets the remaining elements to zero; the
  initialiser \<open>-1\<close> of a \<open>uint8_t\<close> is \<open>0xFF\<close>.  The argument \<open>instr\<close> is an array of
  three bytes, a list of length three here.  The entries of \<open>mne_idx\<close> other than
  \<open>0xFF\<close> are 0, 3 and 6, so the three characters read from \<open>mne_s\<close> lie inside the
  string.  \<open>CHR 0x09\<close> is the tab and \<open>CHR 0x0A\<close> the newline.
\<close>

definition hex_digit :: "nat \<Rightarrow> char" where
  "hex_digit n = ''0123456789ABCDEF'' ! n"

definition hex2 :: "u8 \<Rightarrow> string" where
  "hex2 b = [hex_digit (unat (drop_bit 4 b)), hex_digit (unat (b AND 0xF))]"

definition hex4 :: "u16 \<Rightarrow> string" where
  "hex4 w = [hex_digit (unat (drop_bit 12 w)), hex_digit (unat (drop_bit 8 w AND 0xF)),
             hex_digit (unat (drop_bit 4 w AND 0xF)), hex_digit (unat (w AND 0xF))]"

definition mne_s :: string where
  "mne_s = ''BRKORAANDTXATAXPHPPLPCLCJSRRTI''"

definition mne_idx :: "u8 list" where
  "mne_idx = [0, 3, 3, 6, - 1] @ replicate 251 0"

definition addrmode :: "u8 list" where
  "addrmode = [0x0A, 0x00, 0x07] @ replicate 125 0"

definition dis :: "u8 list \<Rightarrow> u16 \<Rightarrow> string" where
  "dis instr addr =
     (let out = hex4 addr @ '':'' @ [CHR 0x09] in
      if mne_idx ! unat (instr ! 0) = 0xFF then
        out @ [CHR 0x09] @ ''DB'' @ [CHR 0x09] @ ''$'' @ hex2 (instr ! 0) @ [CHR 0x09]
            @ ''; illegal instruction'' @ [CHR 0x0A]
      else
        let p = unat (mne_idx ! unat (instr ! 0));
            out = out @ [CHR 0x09, mne_s ! p, mne_s ! (p + 1), mne_s ! (p + 2)];
            am = addrmode ! unat (drop_bit 1 (instr ! 0));
            am = (if instr ! 0 AND 1 \<noteq> 0 then am AND 0xF else drop_bit 4 am);
            out = (if am \<noteq> 0 then out @ [CHR 0x09] else out);
            word = (push_bit 8 (ucast (instr ! 2)) + ucast (instr ! 1) :: u16);
            target = (addr + scast (instr ! 1) :: u16);
            out = out @
              (if am = 1 then ''A''
               else if am = 2 then ''#$'' @ hex2 (instr ! 1)
               else if am = 3 then ''$'' @ hex4 word
               else if am = 4 then ''$'' @ hex2 (instr ! 1)
               else if am = 5 then ''$'' @ hex4 target @ [CHR 0x09] @ ''; +'' @ hex2 (instr ! 1)
               else if am = 6 then ''$'' @ hex4 word @ '',X''
               else if am = 7 then ''$'' @ hex4 word @ '',Y''
               else if am = 8 then ''$'' @ hex2 (instr ! 1) @ '',X''
               else if am = 9 then ''$'' @ hex2 (instr ! 1) @ '',Y''
               else if am = 10 then ''($'' @ hex4 word @ '',X)''
               else if am = 11 then ''($'' @ hex4 word @ '',Y)''
               else if am = 12 then ''($'' @ hex4 word @ '')''
               else [])
        in out @ [CHR 0x0A])"

section \<open>Notions of the specification\<close>

text \<open>
  The opcode bytes that section 6 of the specification lists as the documented set, row
  by row.  This list follows the specification, not the source; the \<open>switch\<close> is
  compared with it below.
\<close>

definition documented_opcodes :: "u8 list" where
  "documented_opcodes =
     [0x00, 0x01, 0x05, 0x06, 0x08, 0x09, 0x0A, 0x0D, 0x0E]
     @ [0x10, 0x11, 0x15, 0x16, 0x18, 0x19, 0x1D, 0x1E]
     @ [0x20, 0x21, 0x24, 0x25, 0x26, 0x28, 0x29, 0x2A, 0x2C, 0x2D, 0x2E]
     @ [0x30, 0x31, 0x35, 0x36, 0x38, 0x39, 0x3D, 0x3E]
     @ [0x40, 0x41, 0x45, 0x46, 0x48, 0x49, 0x4A, 0x4C, 0x4D, 0x4E]
     @ [0x50, 0x51, 0x55, 0x56, 0x58, 0x59, 0x5D, 0x5E]
     @ [0x60, 0x61, 0x65, 0x66, 0x68, 0x69, 0x6A, 0x6C, 0x6D, 0x6E]
     @ [0x70, 0x71, 0x75, 0x76, 0x78, 0x79, 0x7D, 0x7E]
     @ [0x81, 0x84, 0x85, 0x86, 0x88, 0x8A, 0x8C, 0x8D, 0x8E]
     @ [0x90, 0x91, 0x94, 0x95, 0x96, 0x98, 0x99, 0x9A, 0x9D]
     @ [0xA0, 0xA1, 0xA2, 0xA4, 0xA5, 0xA6, 0xA8, 0xA9, 0xAA, 0xAC, 0xAD, 0xAE]
     @ [0xB0, 0xB1, 0xB4, 0xB5, 0xB6, 0xB8, 0xB9, 0xBA, 0xBC, 0xBD, 0xBE]
     @ [0xC0, 0xC1, 0xC4, 0xC5, 0xC6, 0xC8, 0xC9, 0xCA, 0xCC, 0xCD, 0xCE]
     @ [0xD0, 0xD1, 0xD5, 0xD6, 0xD8, 0xD9, 0xDD, 0xDE]
     @ [0xE0, 0xE1, 0xE4, 0xE5, 0xE6, 0xE8, 0xE9, 0xEA, 0xEC, 0xED, 0xEE]
     @ [0xF0, 0xF1, 0xF5, 0xF6, 0xF8, 0xF9, 0xFD, 0xFE]"

text \<open>
  The specification describes SBC by \<open>u = A - operand - (1 - C)\<close>, a 16-bit unsigned
  value, and \<open>s = sign_extend(A) - sign_extend(operand) - (1 - C)\<close>, the signed result as
  a number.  These two definitions follow that wording; \<open>cpu_sbc\<close> is compared with them.
\<close>

definition spec_sbc_u :: "machine \<Rightarrow> u8 \<Rightarrow> u16" where
  "spec_sbc_u s operand =
     ucast (cpu_a s) - ucast operand - (1 - (if cpu_flags s AND F_C \<noteq> 0 then 1 else 0))"

definition spec_sbc_s :: "machine \<Rightarrow> u8 \<Rightarrow> int" where
  "spec_sbc_s s operand =
     sint (cpu_a s) - sint operand - (1 - (if cpu_flags s AND F_C \<noteq> 0 then 1 else 0))"

text \<open>
  The invariant of the status byte: bits \<open>5\<close> and \<open>B\<close> are clear in the state that a
  step returns.  A step that ends in the decode failure returns no state.
\<close>

definition flags_5_B_clear :: "error + machine \<Rightarrow> bool" where
  "flags_5_B_clear r =
     (case r of Inl e \<Rightarrow> True | Inr s' \<Rightarrow> cpu_flags s' AND (F_5 OR F_B) = 0)"

text \<open>
  The stack pointer after a step that returns a state: \<open>sp_kept sp r\<close> says that it is
  \<open>sp\<close>.
\<close>

definition sp_kept :: "u8 \<Rightarrow> error + machine \<Rightarrow> bool" where
  "sp_kept sp r = (case r of Inl e \<Rightarrow> True | Inr s' \<Rightarrow> cpu_sp s' = sp)"

section \<open>Evaluation\<close>

lemmas flag_defs = F_N_def F_V_def F_5_def F_B_def F_D_def F_I_def F_Z_def F_C_def
  F_PHYSICAL_def

lemmas cpu_execute_rows =
  cpu_execute_00_def cpu_execute_10_def cpu_execute_20_def cpu_execute_30_def
  cpu_execute_40_def cpu_execute_50_def cpu_execute_60_def cpu_execute_70_def
  cpu_execute_80_def cpu_execute_90_def cpu_execute_A0_def cpu_execute_B0_def
  cpu_execute_C0_def cpu_execute_D0_def cpu_execute_E0_def cpu_execute_F0_def

lemmas dis_defs = dis_def hex4_def hex2_def hex_digit_def mne_idx_def mne_s_def addrmode_def

lemmas run_defs = cpu_execute_def cpu_execute_rows cpu_fetch8_def cpu_fetch16_def rd8_def
  wr8_def cpu_push8_def cpu_pop8_def cpu_flags_nz_def cpu_flags_nzc_def cpu_init_def flag_defs

section \<open>Bounds of bytes and words\<close>

lemma uint_ucast_8_16: "uint (ucast (a :: u8) :: u16) = uint a"
  by (simp add: uint_up_ucast is_up)

lemma sint_scast_8_16: "sint (scast (a :: u8) :: u16) = sint a"
  by (simp add: sint_up_scast is_up)

lemma uint_u8_bounds: "0 \<le> uint (a :: u8) \<and> uint a < 256"
  using uint_lt2p [of a] by simp

lemma sint_u8_bounds: "- 128 \<le> sint (a :: u8) \<and> sint a < 128"
  using sint_ge [of a] sint_lt [of a] by simp

lemma stack_addr: "uint ((0x0100 :: u16) + ucast (sp :: u8)) = 256 + uint sp"
  using uint_u8_bounds [of sp]
  by (simp add: uint_word_ariths uint_ucast_8_16)

lemma stack_addr_range:
  "(0x0100 :: u16) \<le> 0x0100 + ucast (sp :: u8) \<and> (0x0100 :: u16) + ucast sp \<le> 0x01FF"
  using uint_u8_bounds [of sp]
  by (simp add: word_le_def stack_addr)

section \<open>Arithmetic of ADC and SBC\<close>

lemma drop_bit_8_zero: "(drop_bit 8 (u :: u16) = 0) = (uint u < 256)"
proof -
  have "(drop_bit 8 u = 0) = (uint (drop_bit 8 u) = 0)"
    by (simp add: uint_0_iff)
  also have "uint (drop_bit 8 u) = uint u div 256"
    by (simp add: drop_bit_eq_div uint_div)
  also have "(uint u div 256 = 0) = (uint u < 256)"
    by (auto simp: zdiv_eq_0_iff)
  finally show ?thesis .
qed

lemma mod_shift: "0 \<le> k \<Longrightarrow> k < m \<Longrightarrow> (k + j * m) mod m = (k :: int)"
  by simp

lemma uint_not_8: "uint (NOT (v :: u8)) = 255 - uint v"
proof -
  have "uint (NOT v) = (- uint v - 1) mod 256"
    by (simp add: unsigned_not_eq not_int_def take_bit_eq_mod)
  also have "- uint v - 1 = (255 - uint v) + (- 1) * 256"
    by simp
  also have "\<dots> mod 256 = 255 - uint v"
    by (rule mod_shift) (use uint_u8_bounds [of v] in linarith)+
  finally show ?thesis .
qed

lemma sint_not_8: "sint (NOT (v :: u8)) = - sint v - 1"
  using sint_u8_bounds [of v]
  by (simp add: signed_not_eq not_int_def signed_take_bit_int_eq_self)

lemma uint_ucast_16_8: "uint (ucast (u :: u16) :: u8) = uint u mod 256"
  by (simp add: unsigned_ucast_eq take_bit_eq_mod)

lemma uint_adc:
  "uint (ucast (a :: u8) + ucast (v :: u8) + (if c then 1 else 0 :: u16))
     = uint a + uint v + (if c then 1 else 0)"
  using uint_u8_bounds [of a] uint_u8_bounds [of v]
  by (simp add: uint_word_ariths uint_ucast_8_16)

lemma uint_sbc:
  "uint (ucast (a :: u8) - ucast (v :: u8) - (if c then 0 else 1 :: u16))
     = (uint a - uint v - (if c then 0 else 1)) mod 65536"
  by (simp add: uint_word_ariths uint_ucast_8_16 mod_simps)

lemma sint_adc:
  "sint (scast (a :: u8) + scast (v :: u8) + (if c then 1 else 0 :: u16))
     = sint a + sint v + (if c then 1 else 0)"
  using sint_u8_bounds [of a] sint_u8_bounds [of v]
  by (simp add: sint_word_ariths sint_scast_8_16 signed_take_bit_int_eq_self)

lemma sint_sbc:
  "sint (scast (a :: u8) - scast (v :: u8) - (if c then 0 else 1 :: u16))
     = sint a - sint v - (if c then 0 else 1)"
  using sint_u8_bounds [of a] sint_u8_bounds [of v]
  by (simp add: sint_word_ariths sint_scast_8_16 signed_take_bit_int_eq_self)

lemma borrow_mod:
  fixes d :: int
  assumes "- 256 \<le> d" and "d < 256"
  shows "(d mod 65536 < 256) = (0 \<le> d)"
proof (cases "0 \<le> d")
  case True
  with assms have "d mod 65536 = d" by simp
  with True assms show ?thesis by simp
next
  case False
  have "d mod 65536 = (d + 1 * 65536) mod 65536" by simp
  also have "\<dots> = d + 1 * 65536"
    using assms False by (intro mod_pos_pos_trivial) linarith+
  finally show ?thesis using assms False by simp
qed

lemma sbc_borrow:
  "(drop_bit 8 (ucast (a :: u8) - ucast (v :: u8) - (if c then 0 else 1 :: u16)) = 0)
     = (uint v + (if c then 0 else 1) \<le> uint a)"
proof -
  let ?d = "uint a - uint v - (if c then 0 else 1)"
  have "- 256 \<le> ?d" and "?d < 256"
    using uint_u8_bounds [of a] uint_u8_bounds [of v]
    by (cases c; simp only: if_True if_False; linarith)+
  then have "(?d mod 65536 < 256) = (0 \<le> ?d)"
    by (rule borrow_mod)
  then show ?thesis
    by (simp add: drop_bit_8_zero uint_sbc) linarith
qed

lemma adc_not_carry:
  "(drop_bit 8 (ucast (a :: u8) + ucast (NOT v :: u8) + (if c then 1 else 0 :: u16)) \<noteq> 0)
     = (uint v + (if c then 0 else 1) \<le> uint a)"
  by (simp add: drop_bit_8_zero uint_adc uint_not_8) linarith

lemma sbc_low_byte:
  "(ucast (ucast (a :: u8) - ucast (v :: u8) - (if c then 0 else 1 :: u16)) :: u8)
     = ucast (ucast a + ucast (NOT v) + (if c then 1 else 0 :: u16))"
proof (rule word_uint_eqI)
  let ?d = "uint a - uint v - (if c then 0 else 1)"
  have "uint (ucast (ucast a - ucast v - (if c then 0 else 1 :: u16)) :: u8)
          = ?d mod 65536 mod 256"
    by (simp only: uint_ucast_16_8 uint_sbc)
  also have "\<dots> = ?d mod 256"
    by (rule mod_mod_cancel) simp
  also have "\<dots> = (?d + 1 * 256) mod 256"
    by simp
  also have "?d + 1 * 256 = uint a + (255 - uint v) + (if c then 1 else 0)"
    by simp
  also have "\<dots> mod 256
          = uint (ucast (ucast a + ucast (NOT v) + (if c then 1 else 0 :: u16)) :: u8)"
    by (simp only: uint_ucast_16_8 uint_adc uint_not_8)
  finally show "uint (ucast (ucast a - ucast v - (if c then 0 else 1 :: u16)) :: u8)
      = uint (ucast (ucast a + ucast (NOT v) + (if c then 1 else 0 :: u16)) :: u8)" .
qed

lemma sbc_overflow:
  "(127 <s (scast (a :: u8) - scast (v :: u8) - (if c then 0 else 1 :: u16))
      \<or> (scast a - scast v - (if c then 0 else 1 :: u16)) <s - 128)
     = (127 < sint a - sint v - (if c then 0 else 1) \<or> sint a - sint v - (if c then 0 else 1) < - 128)"
  by (simp only: word_sless_alt sint_sbc) simp

lemma adc_not_overflow:
  "(127 <s (scast (a :: u8) + scast (NOT v :: u8) + (if c then 1 else 0 :: u16))
      \<or> (scast a + scast (NOT v) + (if c then 1 else 0 :: u16)) <s - 128)
     = (127 < sint a - sint v - (if c then 0 else 1) \<or> sint a - sint v - (if c then 0 else 1) < - 128)"
  by (simp only: word_sless_alt sint_adc sint_not_8) auto

section \<open>Bits 5 and B of the status byte, and the opcodes the switch handles\<close>

lemma flags_5_B_clear_simps [simp]:
  "flags_5_B_clear (Inr s) = (cpu_flags s AND (F_5 OR F_B) = 0)"
  "flags_5_B_clear (Inl e) = True"
  by (simp_all add: flags_5_B_clear_def)

lemma mask_or: "(x OR y) AND k = (x AND k) OR (y AND (k :: u8))"
  by (simp add: bit.conj_disj_distrib2)

lemma mask_if: "(if c then a else b) AND k = (if c then a AND k else b AND (k :: u8))"
  by simp

lemmas mask_simps = mask_or mask_if and.assoc [where 'a = u8]

lemma cpu_flags_nz_5_B [simp]:
  "cpu_flags (cpu_flags_nz v s) AND (F_5 OR F_B) = cpu_flags s AND (F_5 OR F_B)"
  by (simp add: cpu_flags_nz_def mask_simps flag_defs)

lemma cpu_flags_nzc_5_B [simp]:
  "cpu_flags (cpu_flags_nzc v s) AND (F_5 OR F_B) = cpu_flags s AND (F_5 OR F_B)"
  by (simp add: cpu_flags_nzc_def mask_simps flag_defs)

lemma cpu_bit_5_B [simp]:
  "cpu_flags (cpu_bit v s) AND (F_5 OR F_B) = cpu_flags s AND (F_5 OR F_B)"
  by (simp add: cpu_bit_def mask_simps flag_defs)

lemma cpu_adc_5_B [simp]:
  "cpu_flags (cpu_adc v s) AND (F_5 OR F_B) = cpu_flags s AND (F_5 OR F_B)"
  by (simp add: cpu_adc_def mask_simps flag_defs Let_def)

lemma cpu_sbc_5_B [simp]:
  "cpu_flags (cpu_sbc v s) AND (F_5 OR F_B) = cpu_flags s AND (F_5 OR F_B)"
  by (simp add: cpu_sbc_def mask_simps flag_defs Let_def)

lemma cpu_rol_5_B [simp]:
  "cpu_flags (snd (cpu_rol v s)) AND (F_5 OR F_B) = cpu_flags s AND (F_5 OR F_B)"
  by (simp add: cpu_rol_def mask_simps Let_def) (simp add: flag_defs)

lemma cpu_ror_5_B [simp]:
  "cpu_flags (snd (cpu_ror v s)) AND (F_5 OR F_B) = cpu_flags s AND (F_5 OR F_B)"
  by (simp add: cpu_ror_def mask_simps Let_def) (simp add: flag_defs)

lemma cpu_fetch8_flags [simp]: "cpu_flags (snd (cpu_fetch8 s)) = cpu_flags s"
  by (simp add: cpu_fetch8_def)

lemma cpu_fetch16_flags [simp]: "cpu_flags (snd (cpu_fetch16 s)) = cpu_flags s"
  by (simp add: cpu_fetch16_def Let_def)

lemma cpu_ind_x_flags [simp]: "cpu_flags (snd (cpu_ind_x s)) = cpu_flags s"
  by (simp add: cpu_ind_x_def Let_def split_beta)

lemma cpu_ind_y_flags [simp]: "cpu_flags (snd (cpu_ind_y s)) = cpu_flags s"
  by (simp add: cpu_ind_y_def Let_def split_beta)

lemma cpu_pop8_flags [simp]: "cpu_flags (snd (cpu_pop8 s)) = cpu_flags s"
  by (simp add: cpu_pop8_def Let_def)

lemma cpu_push8_flags [simp]: "cpu_flags (cpu_push8 v s) = cpu_flags s"
  by (simp add: cpu_push8_def wr8_def Let_def)

lemma wr8_flags [simp]: "cpu_flags (wr8 a v s) = cpu_flags s"
  by (simp add: wr8_def)

lemma cpu_execute_00_5_B:
  "cpu_flags s AND (F_5 OR F_B) = 0 \<Longrightarrow> flags_5_B_clear rest
    \<Longrightarrow> flags_5_B_clear (cpu_execute_00 opcode s rest)"
  by (simp add: cpu_execute_00_def Let_def split_beta mask_simps) (simp add: flag_defs)?

lemma cpu_execute_10_5_B:
  "cpu_flags s AND (F_5 OR F_B) = 0 \<Longrightarrow> flags_5_B_clear rest
    \<Longrightarrow> flags_5_B_clear (cpu_execute_10 opcode s rest)"
  by (simp add: cpu_execute_10_def Let_def split_beta mask_simps) (simp add: flag_defs)?

lemma cpu_execute_20_5_B:
  "cpu_flags s AND (F_5 OR F_B) = 0 \<Longrightarrow> flags_5_B_clear rest
    \<Longrightarrow> flags_5_B_clear (cpu_execute_20 opcode s rest)"
  by (simp add: cpu_execute_20_def Let_def split_beta mask_simps) (simp add: flag_defs)?

lemma cpu_execute_30_5_B:
  "cpu_flags s AND (F_5 OR F_B) = 0 \<Longrightarrow> flags_5_B_clear rest
    \<Longrightarrow> flags_5_B_clear (cpu_execute_30 opcode s rest)"
  by (simp add: cpu_execute_30_def Let_def split_beta mask_simps) (simp add: flag_defs)?

lemma cpu_execute_40_5_B:
  "cpu_flags s AND (F_5 OR F_B) = 0 \<Longrightarrow> flags_5_B_clear rest
    \<Longrightarrow> flags_5_B_clear (cpu_execute_40 opcode s rest)"
  by (simp add: cpu_execute_40_def Let_def split_beta mask_simps) (simp add: flag_defs)?

lemma cpu_execute_50_5_B:
  "cpu_flags s AND (F_5 OR F_B) = 0 \<Longrightarrow> flags_5_B_clear rest
    \<Longrightarrow> flags_5_B_clear (cpu_execute_50 opcode s rest)"
  by (simp add: cpu_execute_50_def Let_def split_beta mask_simps) (simp add: flag_defs)?

lemma cpu_execute_60_5_B:
  "cpu_flags s AND (F_5 OR F_B) = 0 \<Longrightarrow> flags_5_B_clear rest
    \<Longrightarrow> flags_5_B_clear (cpu_execute_60 opcode s rest)"
  by (simp add: cpu_execute_60_def Let_def split_beta mask_simps) (simp add: flag_defs)?

lemma cpu_execute_70_5_B:
  "cpu_flags s AND (F_5 OR F_B) = 0 \<Longrightarrow> flags_5_B_clear rest
    \<Longrightarrow> flags_5_B_clear (cpu_execute_70 opcode s rest)"
  by (simp add: cpu_execute_70_def Let_def split_beta mask_simps) (simp add: flag_defs)?

lemma cpu_execute_80_5_B:
  "cpu_flags s AND (F_5 OR F_B) = 0 \<Longrightarrow> flags_5_B_clear rest
    \<Longrightarrow> flags_5_B_clear (cpu_execute_80 opcode s rest)"
  by (simp add: cpu_execute_80_def Let_def split_beta mask_simps) (simp add: flag_defs)?

lemma cpu_execute_90_5_B:
  "cpu_flags s AND (F_5 OR F_B) = 0 \<Longrightarrow> flags_5_B_clear rest
    \<Longrightarrow> flags_5_B_clear (cpu_execute_90 opcode s rest)"
  by (simp add: cpu_execute_90_def Let_def split_beta mask_simps) (simp add: flag_defs)?

lemma cpu_execute_A0_5_B:
  "cpu_flags s AND (F_5 OR F_B) = 0 \<Longrightarrow> flags_5_B_clear rest
    \<Longrightarrow> flags_5_B_clear (cpu_execute_A0 opcode s rest)"
  by (simp add: cpu_execute_A0_def Let_def split_beta mask_simps) (simp add: flag_defs)?

lemma cpu_execute_B0_5_B:
  "cpu_flags s AND (F_5 OR F_B) = 0 \<Longrightarrow> flags_5_B_clear rest
    \<Longrightarrow> flags_5_B_clear (cpu_execute_B0 opcode s rest)"
  by (simp add: cpu_execute_B0_def Let_def split_beta mask_simps) (simp add: flag_defs)?

lemma cpu_execute_C0_5_B:
  "cpu_flags s AND (F_5 OR F_B) = 0 \<Longrightarrow> flags_5_B_clear rest
    \<Longrightarrow> flags_5_B_clear (cpu_execute_C0 opcode s rest)"
  by (simp add: cpu_execute_C0_def Let_def split_beta mask_simps) (simp add: flag_defs)?

lemma cpu_execute_D0_5_B:
  "cpu_flags s AND (F_5 OR F_B) = 0 \<Longrightarrow> flags_5_B_clear rest
    \<Longrightarrow> flags_5_B_clear (cpu_execute_D0 opcode s rest)"
  by (simp add: cpu_execute_D0_def Let_def split_beta mask_simps) (simp add: flag_defs)?

lemma cpu_execute_E0_5_B:
  "cpu_flags s AND (F_5 OR F_B) = 0 \<Longrightarrow> flags_5_B_clear rest
    \<Longrightarrow> flags_5_B_clear (cpu_execute_E0 opcode s rest)"
  by (simp add: cpu_execute_E0_def Let_def split_beta mask_simps) (simp add: flag_defs)?

lemma cpu_execute_F0_5_B:
  "cpu_flags s AND (F_5 OR F_B) = 0 \<Longrightarrow> flags_5_B_clear rest
    \<Longrightarrow> flags_5_B_clear (cpu_execute_F0 opcode s rest)"
  by (simp add: cpu_execute_F0_def Let_def split_beta mask_simps) (simp add: flag_defs)?

lemma cpu_execute_5_B:
  "cpu_flags s AND (F_5 OR F_B) = 0 \<Longrightarrow> flags_5_B_clear (cpu_execute s)"
  unfolding cpu_execute_def Let_def split_beta
  by (intro cpu_execute_00_5_B cpu_execute_10_5_B cpu_execute_20_5_B cpu_execute_30_5_B cpu_execute_40_5_B cpu_execute_50_5_B cpu_execute_60_5_B cpu_execute_70_5_B cpu_execute_80_5_B cpu_execute_90_5_B cpu_execute_A0_5_B cpu_execute_B0_5_B cpu_execute_C0_5_B cpu_execute_D0_5_B cpu_execute_E0_5_B cpu_execute_F0_5_B) simp_all

lemma cpu_execute_00_Inl:
  "(cpu_execute_00 opcode s rest = Inl e) = (opcode \<notin> set [0x00, 0x01, 0x05, 0x06, 0x08, 0x09, 0x0A, 0x0D, 0x0E] \<and> rest = Inl e)"
  by (simp add: cpu_execute_00_def)

lemma cpu_execute_10_Inl:
  "(cpu_execute_10 opcode s rest = Inl e) = (opcode \<notin> set [0x10, 0x11, 0x15, 0x16, 0x18, 0x19, 0x1D, 0x1E] \<and> rest = Inl e)"
  by (simp add: cpu_execute_10_def)

lemma cpu_execute_20_Inl:
  "(cpu_execute_20 opcode s rest = Inl e) = (opcode \<notin> set [0x20, 0x21, 0x24, 0x25, 0x26, 0x28, 0x29, 0x2A, 0x2C, 0x2D, 0x2E] \<and> rest = Inl e)"
  by (simp add: cpu_execute_20_def)

lemma cpu_execute_30_Inl:
  "(cpu_execute_30 opcode s rest = Inl e) = (opcode \<notin> set [0x30, 0x31, 0x35, 0x36, 0x38, 0x39, 0x3D, 0x3E] \<and> rest = Inl e)"
  by (simp add: cpu_execute_30_def)

lemma cpu_execute_40_Inl:
  "(cpu_execute_40 opcode s rest = Inl e) = (opcode \<notin> set [0x40, 0x41, 0x45, 0x46, 0x48, 0x49, 0x4A, 0x4C, 0x4D, 0x4E] \<and> rest = Inl e)"
  by (simp add: cpu_execute_40_def)

lemma cpu_execute_50_Inl:
  "(cpu_execute_50 opcode s rest = Inl e) = (opcode \<notin> set [0x50, 0x51, 0x55, 0x56, 0x58, 0x59, 0x5D, 0x5E] \<and> rest = Inl e)"
  by (simp add: cpu_execute_50_def)

lemma cpu_execute_60_Inl:
  "(cpu_execute_60 opcode s rest = Inl e) = (opcode \<notin> set [0x60, 0x61, 0x65, 0x66, 0x68, 0x69, 0x6A, 0x6C, 0x6D, 0x6E] \<and> rest = Inl e)"
  by (simp add: cpu_execute_60_def)

lemma cpu_execute_70_Inl:
  "(cpu_execute_70 opcode s rest = Inl e) = (opcode \<notin> set [0x70, 0x71, 0x75, 0x76, 0x78, 0x79, 0x7D, 0x7E] \<and> rest = Inl e)"
  by (simp add: cpu_execute_70_def)

lemma cpu_execute_80_Inl:
  "(cpu_execute_80 opcode s rest = Inl e) = (opcode \<notin> set [0x81, 0x84, 0x85, 0x86, 0x88, 0x8A, 0x8C, 0x8D, 0x8E] \<and> rest = Inl e)"
  by (simp add: cpu_execute_80_def)

lemma cpu_execute_90_Inl:
  "(cpu_execute_90 opcode s rest = Inl e) = (opcode \<notin> set [0x90, 0x91, 0x94, 0x95, 0x96, 0x98, 0x99, 0x9A, 0x9D] \<and> rest = Inl e)"
  by (simp add: cpu_execute_90_def)

lemma cpu_execute_A0_Inl:
  "(cpu_execute_A0 opcode s rest = Inl e) = (opcode \<notin> set [0xA0, 0xA1, 0xA2, 0xA4, 0xA5, 0xA6, 0xA8, 0xA9, 0xAA, 0xAB, 0xAC, 0xAD, 0xAE] \<and> rest = Inl e)"
  by (simp add: cpu_execute_A0_def)

lemma cpu_execute_B0_Inl:
  "(cpu_execute_B0 opcode s rest = Inl e) = (opcode \<notin> set [0xB0, 0xB1, 0xB4, 0xB5, 0xB6, 0xB8, 0xB9, 0xBA, 0xBC, 0xBD, 0xBE] \<and> rest = Inl e)"
  by (simp add: cpu_execute_B0_def)

lemma cpu_execute_C0_Inl:
  "(cpu_execute_C0 opcode s rest = Inl e) = (opcode \<notin> set [0xC0, 0xC1, 0xC4, 0xC5, 0xC6, 0xC8, 0xC9, 0xCA, 0xCC, 0xCD, 0xCE] \<and> rest = Inl e)"
  by (simp add: cpu_execute_C0_def)

lemma cpu_execute_D0_Inl:
  "(cpu_execute_D0 opcode s rest = Inl e) = (opcode \<notin> set [0xD0, 0xD1, 0xD5, 0xD6, 0xD8, 0xD9, 0xDD, 0xDE] \<and> rest = Inl e)"
  by (simp add: cpu_execute_D0_def)

lemma cpu_execute_E0_Inl:
  "(cpu_execute_E0 opcode s rest = Inl e) = (opcode \<notin> set [0xE0, 0xE1, 0xE4, 0xE5, 0xE6, 0xE8, 0xE9, 0xEA, 0xEC, 0xED, 0xEE] \<and> rest = Inl e)"
  by (simp add: cpu_execute_E0_def)

lemma cpu_execute_F0_Inl:
  "(cpu_execute_F0 opcode s rest = Inl e) = (opcode \<notin> set [0xF0, 0xF1, 0xF5, 0xF6, 0xF8, 0xF9, 0xFD, 0xFE] \<and> rest = Inl e)"
  by (simp add: cpu_execute_F0_def)

lemma cpu_execute_Inl:
  "(cpu_execute s = Inl e) =
     (mem s (cpu_pc s) \<notin> set documented_opcodes \<and> mem s (cpu_pc s) \<noteq> 0xAB
      \<and> e = Undefined_opcode (mem s (cpu_pc s)))"
  unfolding cpu_execute_def Let_def split_beta
    cpu_execute_00_Inl cpu_execute_10_Inl cpu_execute_20_Inl cpu_execute_30_Inl cpu_execute_40_Inl cpu_execute_50_Inl cpu_execute_60_Inl cpu_execute_70_Inl cpu_execute_80_Inl cpu_execute_90_Inl cpu_execute_A0_Inl cpu_execute_B0_Inl cpu_execute_C0_Inl cpu_execute_D0_Inl cpu_execute_E0_Inl cpu_execute_F0_Inl
  by (auto simp: documented_opcodes_def cpu_fetch8_def rd8_def)

section \<open>The stack pointer outside the stack instructions\<close>

text \<open>
  The handlers of eight opcodes call \<open>cpu_push8\<close> or \<open>cpu_pop8\<close>: BRK, PHP, JSR and PHA
  push, PLP, RTI, RTS and PLA pop.  TXS (\<open>0x9A\<close>) copies \<open>X\<close> to the stack pointer.  A step
  at any other opcode leaves the stack pointer as it was.
\<close>

lemma sp_kept_simps [simp]:
  "sp_kept sp (Inr s) = (cpu_sp s = sp)"
  "sp_kept sp (Inl e) = True"
  by (simp_all add: sp_kept_def)

lemma cpu_fetch8_sp [simp]: "cpu_sp (snd (cpu_fetch8 s)) = cpu_sp s"
  by (simp add: cpu_fetch8_def)

lemma cpu_fetch16_sp [simp]: "cpu_sp (snd (cpu_fetch16 s)) = cpu_sp s"
  by (simp add: cpu_fetch16_def Let_def)

lemma cpu_ind_x_sp [simp]: "cpu_sp (snd (cpu_ind_x s)) = cpu_sp s"
  by (simp add: cpu_ind_x_def Let_def split_beta)

lemma cpu_ind_y_sp [simp]: "cpu_sp (snd (cpu_ind_y s)) = cpu_sp s"
  by (simp add: cpu_ind_y_def Let_def split_beta)

lemma wr8_sp [simp]: "cpu_sp (wr8 a v s) = cpu_sp s"
  by (simp add: wr8_def)

lemma cpu_flags_nz_sp [simp]: "cpu_sp (cpu_flags_nz v s) = cpu_sp s"
  by (simp add: cpu_flags_nz_def)

lemma cpu_flags_nzc_sp [simp]: "cpu_sp (cpu_flags_nzc v s) = cpu_sp s"
  by (simp add: cpu_flags_nzc_def)

lemma cpu_bit_sp [simp]: "cpu_sp (cpu_bit v s) = cpu_sp s"
  by (simp add: cpu_bit_def)

lemma cpu_adc_sp [simp]: "cpu_sp (cpu_adc v s) = cpu_sp s"
  by (simp add: cpu_adc_def Let_def)

lemma cpu_sbc_sp [simp]: "cpu_sp (cpu_sbc v s) = cpu_sp s"
  by (simp add: cpu_sbc_def Let_def)

lemma cpu_rol_sp [simp]: "cpu_sp (snd (cpu_rol v s)) = cpu_sp s"
  by (simp add: cpu_rol_def Let_def)

lemma cpu_ror_sp [simp]: "cpu_sp (snd (cpu_ror v s)) = cpu_sp s"
  by (simp add: cpu_ror_def Let_def)

lemma cpu_execute_00_sp:
  "opcode \<notin> set [0x00, 0x08, 0x20, 0x48, 0x28, 0x40, 0x60, 0x68, 0x9A] \<Longrightarrow> cpu_sp s = sp
    \<Longrightarrow> sp_kept sp rest \<Longrightarrow> sp_kept sp (cpu_execute_00 opcode s rest)"
  by (simp add: cpu_execute_00_def Let_def split_beta)

lemma cpu_execute_10_sp:
  "opcode \<notin> set [0x00, 0x08, 0x20, 0x48, 0x28, 0x40, 0x60, 0x68, 0x9A] \<Longrightarrow> cpu_sp s = sp
    \<Longrightarrow> sp_kept sp rest \<Longrightarrow> sp_kept sp (cpu_execute_10 opcode s rest)"
  by (simp add: cpu_execute_10_def Let_def split_beta)

lemma cpu_execute_20_sp:
  "opcode \<notin> set [0x00, 0x08, 0x20, 0x48, 0x28, 0x40, 0x60, 0x68, 0x9A] \<Longrightarrow> cpu_sp s = sp
    \<Longrightarrow> sp_kept sp rest \<Longrightarrow> sp_kept sp (cpu_execute_20 opcode s rest)"
  by (simp add: cpu_execute_20_def Let_def split_beta)

lemma cpu_execute_30_sp:
  "opcode \<notin> set [0x00, 0x08, 0x20, 0x48, 0x28, 0x40, 0x60, 0x68, 0x9A] \<Longrightarrow> cpu_sp s = sp
    \<Longrightarrow> sp_kept sp rest \<Longrightarrow> sp_kept sp (cpu_execute_30 opcode s rest)"
  by (simp add: cpu_execute_30_def Let_def split_beta)

lemma cpu_execute_40_sp:
  "opcode \<notin> set [0x00, 0x08, 0x20, 0x48, 0x28, 0x40, 0x60, 0x68, 0x9A] \<Longrightarrow> cpu_sp s = sp
    \<Longrightarrow> sp_kept sp rest \<Longrightarrow> sp_kept sp (cpu_execute_40 opcode s rest)"
  by (simp add: cpu_execute_40_def Let_def split_beta)

lemma cpu_execute_50_sp:
  "opcode \<notin> set [0x00, 0x08, 0x20, 0x48, 0x28, 0x40, 0x60, 0x68, 0x9A] \<Longrightarrow> cpu_sp s = sp
    \<Longrightarrow> sp_kept sp rest \<Longrightarrow> sp_kept sp (cpu_execute_50 opcode s rest)"
  by (simp add: cpu_execute_50_def Let_def split_beta)

lemma cpu_execute_60_sp:
  "opcode \<notin> set [0x00, 0x08, 0x20, 0x48, 0x28, 0x40, 0x60, 0x68, 0x9A] \<Longrightarrow> cpu_sp s = sp
    \<Longrightarrow> sp_kept sp rest \<Longrightarrow> sp_kept sp (cpu_execute_60 opcode s rest)"
  by (simp add: cpu_execute_60_def Let_def split_beta)

lemma cpu_execute_70_sp:
  "opcode \<notin> set [0x00, 0x08, 0x20, 0x48, 0x28, 0x40, 0x60, 0x68, 0x9A] \<Longrightarrow> cpu_sp s = sp
    \<Longrightarrow> sp_kept sp rest \<Longrightarrow> sp_kept sp (cpu_execute_70 opcode s rest)"
  by (simp add: cpu_execute_70_def Let_def split_beta)

lemma cpu_execute_80_sp:
  "opcode \<notin> set [0x00, 0x08, 0x20, 0x48, 0x28, 0x40, 0x60, 0x68, 0x9A] \<Longrightarrow> cpu_sp s = sp
    \<Longrightarrow> sp_kept sp rest \<Longrightarrow> sp_kept sp (cpu_execute_80 opcode s rest)"
  by (simp add: cpu_execute_80_def Let_def split_beta)

lemma cpu_execute_90_sp:
  "opcode \<notin> set [0x00, 0x08, 0x20, 0x48, 0x28, 0x40, 0x60, 0x68, 0x9A] \<Longrightarrow> cpu_sp s = sp
    \<Longrightarrow> sp_kept sp rest \<Longrightarrow> sp_kept sp (cpu_execute_90 opcode s rest)"
  by (simp add: cpu_execute_90_def Let_def split_beta)

lemma cpu_execute_A0_sp:
  "opcode \<notin> set [0x00, 0x08, 0x20, 0x48, 0x28, 0x40, 0x60, 0x68, 0x9A] \<Longrightarrow> cpu_sp s = sp
    \<Longrightarrow> sp_kept sp rest \<Longrightarrow> sp_kept sp (cpu_execute_A0 opcode s rest)"
  by (simp add: cpu_execute_A0_def Let_def split_beta)

lemma cpu_execute_B0_sp:
  "opcode \<notin> set [0x00, 0x08, 0x20, 0x48, 0x28, 0x40, 0x60, 0x68, 0x9A] \<Longrightarrow> cpu_sp s = sp
    \<Longrightarrow> sp_kept sp rest \<Longrightarrow> sp_kept sp (cpu_execute_B0 opcode s rest)"
  by (simp add: cpu_execute_B0_def Let_def split_beta)

lemma cpu_execute_C0_sp:
  "opcode \<notin> set [0x00, 0x08, 0x20, 0x48, 0x28, 0x40, 0x60, 0x68, 0x9A] \<Longrightarrow> cpu_sp s = sp
    \<Longrightarrow> sp_kept sp rest \<Longrightarrow> sp_kept sp (cpu_execute_C0 opcode s rest)"
  by (simp add: cpu_execute_C0_def Let_def split_beta)

lemma cpu_execute_D0_sp:
  "opcode \<notin> set [0x00, 0x08, 0x20, 0x48, 0x28, 0x40, 0x60, 0x68, 0x9A] \<Longrightarrow> cpu_sp s = sp
    \<Longrightarrow> sp_kept sp rest \<Longrightarrow> sp_kept sp (cpu_execute_D0 opcode s rest)"
  by (simp add: cpu_execute_D0_def Let_def split_beta)

lemma cpu_execute_E0_sp:
  "opcode \<notin> set [0x00, 0x08, 0x20, 0x48, 0x28, 0x40, 0x60, 0x68, 0x9A] \<Longrightarrow> cpu_sp s = sp
    \<Longrightarrow> sp_kept sp rest \<Longrightarrow> sp_kept sp (cpu_execute_E0 opcode s rest)"
  by (simp add: cpu_execute_E0_def Let_def split_beta)

lemma cpu_execute_F0_sp:
  "opcode \<notin> set [0x00, 0x08, 0x20, 0x48, 0x28, 0x40, 0x60, 0x68, 0x9A] \<Longrightarrow> cpu_sp s = sp
    \<Longrightarrow> sp_kept sp rest \<Longrightarrow> sp_kept sp (cpu_execute_F0 opcode s rest)"
  by (simp add: cpu_execute_F0_def Let_def split_beta)

lemma cpu_execute_sp:
  "mem s (cpu_pc s) \<notin> set [0x00, 0x08, 0x20, 0x48, 0x28, 0x40, 0x60, 0x68, 0x9A]
    \<Longrightarrow> sp_kept (cpu_sp s) (cpu_execute s)"
  unfolding cpu_execute_def Let_def split_beta
  by (intro cpu_execute_00_sp cpu_execute_10_sp cpu_execute_20_sp cpu_execute_30_sp cpu_execute_40_sp cpu_execute_50_sp cpu_execute_60_sp cpu_execute_70_sp cpu_execute_80_sp cpu_execute_90_sp cpu_execute_A0_sp cpu_execute_B0_sp cpu_execute_C0_sp cpu_execute_D0_sp cpu_execute_E0_sp cpu_execute_F0_sp) (simp_all add: cpu_fetch8_def rd8_def)

section \<open>Single instructions on every state\<close>

text \<open>
  What one step does when the program counter points at a given opcode, for every state.
  Each lemma unfolds the \<open>switch\<close> at that opcode.
\<close>

lemmas step_defs = cpu_execute_def cpu_execute_rows cpu_fetch8_def cpu_fetch16_def rd8_def
  wr8_def cpu_push8_def cpu_pop8_def Let_def

lemma branch_steps:
  "mem s (cpu_pc s) = 0x10 \<Longrightarrow> cpu_execute s = Inr (s\<lparr>cpu_pc := cpu_pc s + 2
      + (if cpu_flags s AND F_N = 0 then scast (mem s (cpu_pc s + 1)) else 0)\<rparr>)"
  "mem s (cpu_pc s) = 0x30 \<Longrightarrow> cpu_execute s = Inr (s\<lparr>cpu_pc := cpu_pc s + 2
      + (if cpu_flags s AND F_N \<noteq> 0 then scast (mem s (cpu_pc s + 1)) else 0)\<rparr>)"
  "mem s (cpu_pc s) = 0x50 \<Longrightarrow> cpu_execute s = Inr (s\<lparr>cpu_pc := cpu_pc s + 2
      + (if cpu_flags s AND F_V = 0 then scast (mem s (cpu_pc s + 1)) else 0)\<rparr>)"
  "mem s (cpu_pc s) = 0x70 \<Longrightarrow> cpu_execute s = Inr (s\<lparr>cpu_pc := cpu_pc s + 2
      + (if cpu_flags s AND F_N \<noteq> 0 then scast (mem s (cpu_pc s + 1)) else 0)\<rparr>)"
  "mem s (cpu_pc s) = 0x90 \<Longrightarrow> cpu_execute s = Inr (s\<lparr>cpu_pc := cpu_pc s + 2
      + (if cpu_flags s AND F_C = 0 then scast (mem s (cpu_pc s + 1)) else 0)\<rparr>)"
  "mem s (cpu_pc s) = 0xB0 \<Longrightarrow> cpu_execute s = Inr (s\<lparr>cpu_pc := cpu_pc s + 2
      + (if cpu_flags s AND F_C \<noteq> 0 then scast (mem s (cpu_pc s + 1)) else 0)\<rparr>)"
  "mem s (cpu_pc s) = 0xD0 \<Longrightarrow> cpu_execute s = Inr (s\<lparr>cpu_pc := cpu_pc s + 2
      + (if cpu_flags s AND F_Z = 0 then scast (mem s (cpu_pc s + 1)) else 0)\<rparr>)"
  "mem s (cpu_pc s) = 0xF0 \<Longrightarrow> cpu_execute s = Inr (s\<lparr>cpu_pc := cpu_pc s + 2
      + (if cpu_flags s AND F_Z \<noteq> 0 then scast (mem s (cpu_pc s + 1)) else 0)\<rparr>)"
  by (simp_all add: cpu_execute_def cpu_execute_rows cpu_fetch8_def rd8_def)

lemma LDA_immediate_step:
  "mem s (cpu_pc s) = 0xA9 \<Longrightarrow>
     cpu_execute s = Inr (s\<lparr>cpu_pc := cpu_pc s + 2, cpu_a := mem s (cpu_pc s + 1)\<rparr>)"
  by (simp add: step_defs)

lemma LDA_zpg_step:
  "mem s (cpu_pc s) = 0xA5 \<Longrightarrow>
     cpu_execute s = Inr (cpu_flags_nz (mem s (ucast (mem s (cpu_pc s + 1))))
       (s\<lparr>cpu_pc := cpu_pc s + 2, cpu_a := mem s (ucast (mem s (cpu_pc s + 1)))\<rparr>))"
  by (simp add: step_defs) (simp add: add.commute)

lemma CPX_abs_step:
  "mem s (cpu_pc s) = 0xEC \<Longrightarrow>
     cpu_execute s = Inr (cpu_flags_nzc (ucast (cpu_x s) - ucast (mem s (cpu_pc s + 1)))
       (s\<lparr>cpu_pc := cpu_pc s + 2\<rparr>))"
  by (simp add: step_defs) (simp add: add.commute)

lemma CPY_abs_step:
  "mem s (cpu_pc s) = 0xCC \<Longrightarrow>
     cpu_execute s = Inr (cpu_flags_nzc (ucast (cpu_y s)
         - ucast (mem s (ucast (mem s (cpu_pc s + 1)) + push_bit 8 (ucast (mem s (cpu_pc s + 2))))))
       (s\<lparr>cpu_pc := cpu_pc s + 3\<rparr>))"
  by (simp add: step_defs) (simp add: add.commute)

lemma BRK_step:
  "mem s (cpu_pc s) = 0x00 \<Longrightarrow>
     cpu_execute s =
       (let m = (mem s)
              (0x0100 + ucast (cpu_sp s) := ucast (drop_bit 8 (cpu_pc s + 1)),
               0x0100 + ucast (cpu_sp s - 1) := ucast ((cpu_pc s + 1) AND 0xFF),
               0x0100 + ucast (cpu_sp s - 2) := cpu_flags s OR F_B OR F_5)
        in Inr (s\<lparr>mem := m, cpu_sp := cpu_sp s - 3, cpu_flags := cpu_flags s OR F_I,
                 cpu_pc := ucast (m 0xFFFE) + push_bit 8 (ucast (m 0xFFFF))\<rparr>))"
  by (simp add: step_defs)

lemma opcode_AB_step:
  "mem s (cpu_pc s) = 0xAB \<Longrightarrow>
     cpu_execute s =
       (let v = mem s (ucast (mem s (cpu_pc s + 1)) + push_bit 8 (ucast (mem s (cpu_pc s + 2))))
        in Inr (cpu_flags_nz v (s\<lparr>cpu_pc := cpu_pc s + 3, cpu_y := v\<rparr>)))"
  by (simp add: step_defs) (simp add: add.commute)

lemma CLD_step:
  "mem s (cpu_pc s) = 0xD8 \<Longrightarrow>
     cpu_execute s = Inr (s\<lparr>cpu_pc := cpu_pc s + 1, cpu_flags := cpu_flags s AND NOT F_C\<rparr>)"
  by (simp add: step_defs)

lemma SED_step:
  "mem s (cpu_pc s) = 0xF8 \<Longrightarrow>
     cpu_execute s = Inr (s\<lparr>cpu_pc := cpu_pc s + 1, cpu_flags := cpu_flags s OR F_D\<rparr>)"
  by (simp add: step_defs)

section \<open>The stack instructions\<close>

lemma PHP_step:
  "mem s (cpu_pc s) = 0x08 \<Longrightarrow>
     cpu_execute s = Inr (s\<lparr>cpu_pc := cpu_pc s + 1,
       mem := (mem s)(0x0100 + ucast (cpu_sp s) := cpu_flags s OR F_B OR F_5),
       cpu_sp := cpu_sp s - 1\<rparr>)"
  by (simp add: step_defs)

lemma PHA_step:
  "mem s (cpu_pc s) = 0x48 \<Longrightarrow>
     cpu_execute s = Inr (s\<lparr>cpu_pc := cpu_pc s + 1,
       mem := (mem s)(0x0100 + ucast (cpu_sp s) := cpu_a s),
       cpu_sp := cpu_sp s - 1\<rparr>)"
  by (simp add: step_defs)

lemma JSR_step:
  "mem s (cpu_pc s) = 0x20 \<Longrightarrow>
     cpu_execute s =
       (let m = (mem s)
              (0x0100 + ucast (cpu_sp s) := ucast (drop_bit 8 (cpu_pc s + 2)),
               0x0100 + ucast (cpu_sp s - 1) := ucast ((cpu_pc s + 2) AND 0xFF))
        in Inr (s\<lparr>mem := m, cpu_sp := cpu_sp s - 2,
                 cpu_pc := ucast (mem s (cpu_pc s + 1)) OR push_bit 8 (ucast (m (cpu_pc s + 2)))\<rparr>))"
  by (simp add: step_defs) (simp add: add.commute)

lemma PLP_step:
  "mem s (cpu_pc s) = 0x28 \<Longrightarrow>
     cpu_execute s = Inr (s\<lparr>cpu_pc := cpu_pc s + 1, cpu_sp := cpu_sp s + 1,
       cpu_flags := mem s (0x0100 + ucast (cpu_sp s + 1)) AND F_PHYSICAL\<rparr>)"
  by (simp add: step_defs)

lemma PLA_step:
  "mem s (cpu_pc s) = 0x68 \<Longrightarrow>
     cpu_execute s = Inr (s\<lparr>cpu_pc := cpu_pc s + 1, cpu_sp := cpu_sp s + 1,
       cpu_a := mem s (0x0100 + ucast (cpu_sp s + 1))\<rparr>)"
  by (simp add: step_defs)

lemma RTS_step:
  "mem s (cpu_pc s) = 0x60 \<Longrightarrow>
     cpu_execute s = Inr (s\<lparr>cpu_sp := cpu_sp s + 2,
       cpu_pc := (ucast (mem s (0x0100 + ucast (cpu_sp s + 1)))
                  OR push_bit 8 (ucast (mem s (0x0100 + ucast (cpu_sp s + 2))))) + 1\<rparr>)"
  by (simp add: step_defs) (simp add: add.commute)

lemma RTI_step:
  "mem s (cpu_pc s) = 0x40 \<Longrightarrow>
     cpu_execute s = Inr (s\<lparr>cpu_sp := cpu_sp s + 3,
       cpu_flags := mem s (0x0100 + ucast (cpu_sp s + 1)) AND F_PHYSICAL,
       cpu_pc := ucast (mem s (0x0100 + ucast (cpu_sp s + 2)))
                  + push_bit 8 (ucast (mem s (0x0100 + ucast (cpu_sp s + 3))))\<rparr>)"
  by (simp add: step_defs) (simp add: add.commute)

lemma TXS_step:
  "mem s (cpu_pc s) = 0x9A \<Longrightarrow>
     cpu_execute s = Inr (s\<lparr>cpu_pc := cpu_pc s + 1, cpu_sp := cpu_x s\<rparr>)"
  by (simp add: step_defs)

lemma stack_writes_in_page:
  assumes "mem s (cpu_pc s) \<in> set [0x00, 0x08, 0x20, 0x48]"
    and "cpu_execute s = Inr s'"
    and "mem s' addr \<noteq> mem s addr"
  shows "0x0100 \<le> addr \<and> addr \<le> 0x01FF"
proof -
  have "addr = 0x0100 + ucast (cpu_sp s) \<or> addr = 0x0100 + ucast (cpu_sp s - 1)
      \<or> addr = 0x0100 + ucast (cpu_sp s - 2)"
    using assms
    by (auto simp: BRK_step PHP_step JSR_step PHA_step Let_def split: if_splits)
  then show ?thesis
    using stack_addr_range [of "cpu_sp s"] stack_addr_range [of "cpu_sp s - 1"]
      stack_addr_range [of "cpu_sp s - 2"]
    by auto
qed

lemma stack_reads_keep_memory:
  assumes "mem s (cpu_pc s) \<in> set [0x28, 0x40, 0x60, 0x68]"
    and "cpu_execute s = Inr s'"
  shows "mem s' = mem s"
  using assms by (auto simp: PLP_step RTI_step RTS_step PLA_step)

lemma other_opcodes_keep_sp:
  assumes "mem s (cpu_pc s) \<notin> set [0x00, 0x08, 0x20, 0x48, 0x28, 0x40, 0x60, 0x68, 0x9A]"
    and "cpu_execute s = Inr s'"
  shows "cpu_sp s' = cpu_sp s"
  using cpu_execute_sp [OF assms(1)] assms(2) by simp

section \<open>SBC against the wording of the specification\<close>

lemma ucast_ucast_low_byte: "(ucast (ucast (u :: u16) :: u8) :: u16) = u AND 0xFF"
proof -
  have "(ucast (ucast u :: u8) :: u16) = u AND mask 8"
    by (rule bit_word_eqI) (auto simp: bit_simps)
  then show ?thesis
    by (simp add: mask_eq_exp_minus_1)
qed

lemma cpu_sbc_a: "cpu_a (cpu_sbc v s) = ucast (spec_sbc_u s v)"
  by (simp add: cpu_sbc_def spec_sbc_u_def Let_def)

lemma cpu_sbc_C:
  "(cpu_flags (cpu_sbc v s) AND F_C \<noteq> 0) = (drop_bit 8 (spec_sbc_u s v) = 0)"
  by (simp add: cpu_sbc_def spec_sbc_u_def Let_def mask_simps flag_defs)

lemma cpu_sbc_V:
  "(cpu_flags (cpu_sbc v s) AND F_V \<noteq> 0) = (spec_sbc_s s v < - 128 \<or> 127 < spec_sbc_s s v)"
proof -
  have "(cpu_flags (cpu_sbc v s) AND F_V \<noteq> 0)
      = (127 <s (scast (cpu_a s) - scast v - (if cpu_flags s AND F_C \<noteq> 0 then 0 else 1 :: u16))
          \<or> (scast (cpu_a s) - scast v - (if cpu_flags s AND F_C \<noteq> 0 then 0 else 1 :: u16)) <s - 128)"
    by (simp add: cpu_sbc_def Let_def mask_simps flag_defs)
  also have "\<dots> = (spec_sbc_s s v < - 128 \<or> 127 < spec_sbc_s s v)"
    unfolding sbc_overflow spec_sbc_s_def by auto
  finally show ?thesis .
qed

lemma spec_sbc_borrow:
  "(drop_bit 8 (spec_sbc_u s v) = 0)
     = (uint v + (if cpu_flags s AND F_C \<noteq> 0 then 0 else 1) \<le> uint (cpu_a s))"
  using sbc_borrow [of "cpu_a s" v "cpu_flags s AND F_C \<noteq> 0"]
  by (auto simp: spec_sbc_u_def split: if_splits)

section \<open>The claims\<close>

text \<open>
  C1.  Branches.  Seven of the eight branch handlers test the flag their mnemonic names
  (\<open>branch_steps\<close>); the handler of BVS (\<open>0x70\<close>) tests \<open>F_N\<close>.  With BVS at
  \<open>0x8000\<close> and the offset \<open>0x10\<close>: when V is set and N is clear the step falls through
  to \<open>0x8002\<close>, and when N is set and V is clear it branches to \<open>0x8012\<close>; the flags
  and the rest of the state are unchanged.
\<close>

theorem BVS_tests_N_not_V:
  "cpu_execute \<lparr>cpu_a = 0, cpu_x = 0, cpu_y = 0, cpu_flags = F_V, cpu_sp = 0xFD, cpu_pc = 0x8000,
       mem = (\<lambda>_. 0)(0x8000 := 0x70, 0x8001 := 0x10)\<rparr>
     = Inr \<lparr>cpu_a = 0, cpu_x = 0, cpu_y = 0, cpu_flags = F_V, cpu_sp = 0xFD, cpu_pc = 0x8002,
       mem = (\<lambda>_. 0)(0x8000 := 0x70, 0x8001 := 0x10)\<rparr>
   \<and> cpu_execute \<lparr>cpu_a = 0, cpu_x = 0, cpu_y = 0, cpu_flags = F_N, cpu_sp = 0xFD, cpu_pc = 0x8000,
       mem = (\<lambda>_. 0)(0x8000 := 0x70, 0x8001 := 0x10)\<rparr>
     = Inr \<lparr>cpu_a = 0, cpu_x = 0, cpu_y = 0, cpu_flags = F_N, cpu_sp = 0xFD, cpu_pc = 0x8012,
       mem = (\<lambda>_. 0)(0x8000 := 0x70, 0x8001 := 0x10)\<rparr>"
  by (simp add: run_defs)

text \<open>
  C2.  Loads.  The handler of LDA immediate (\<open>0xA9\<close>) stores the byte in \<open>A\<close> and does
  not update N and Z, unlike the other loads (\<open>LDA_zpg_step\<close>).  With \<open>A9 00\<close> at
  \<open>0x8000\<close> and the reset vector pointing there, reset followed by one step gives
  \<open>A = 0x00\<close> and \<open>PC = 0x8002\<close>, and the status byte is still the one of the reset,
  \<open>F_I\<close> alone: Z is clear.
\<close>

theorem LDA_immediate_leaves_flags:
  "cpu_execute (cpu_init \<lparr>cpu_a = 0, cpu_x = 0, cpu_y = 0, cpu_flags = 0, cpu_sp = 0, cpu_pc = 0,
       mem = (\<lambda>_. 0)(0x8000 := 0xA9, 0x8001 := 0x00, 0xFFFC := 0x00, 0xFFFD := 0x80)\<rparr>)
     = Inr \<lparr>cpu_a = 0, cpu_x = 0, cpu_y = 0, cpu_flags = F_I, cpu_sp = 0xFD, cpu_pc = 0x8002,
       mem = (\<lambda>_. 0)(0x8000 := 0xA9, 0x8001 := 0x00, 0xFFFC := 0x00, 0xFFFD := 0x80)\<rparr>
   \<and> F_I AND F_Z = 0"
  by (simp add: run_defs)

text \<open>
  C3.  \<open>cpu_sbc\<close> with operand \<open>v\<close> returns the same state as \<open>cpu_adc\<close> with the
  complement \<open>NOT v\<close>, for every state and every \<open>v\<close>.  With \<open>u = A - v - (1 - C)\<close>
  in 16 bits (\<open>spec_sbc_u\<close>) and the signed result \<open>sign_extend(A) - sign_extend(v) -
  (1 - C)\<close> as a number (\<open>spec_sbc_s\<close>): \<open>A\<close> becomes the low byte \<open>u & 0xFF\<close>; C is set
  iff \<open>u >> 8 = 0\<close>, which is the case iff there is no borrow; and V is set iff the signed
  result lies outside \<open>[-128, 127]\<close>.
\<close>

theorem sbc_is_adc_of_complement:
  "cpu_sbc v s = cpu_adc (NOT v) s
   \<and> cpu_a (cpu_sbc v s) = ucast (spec_sbc_u s v)
   \<and> ucast (cpu_a (cpu_sbc v s)) = spec_sbc_u s v AND 0xFF
   \<and> (cpu_flags (cpu_sbc v s) AND F_C \<noteq> 0) = (drop_bit 8 (spec_sbc_u s v) = 0)
   \<and> (drop_bit 8 (spec_sbc_u s v) = 0)
       = (uint v + (if cpu_flags s AND F_C \<noteq> 0 then 0 else 1) \<le> uint (cpu_a s))
   \<and> (cpu_flags (cpu_sbc v s) AND F_V \<noteq> 0)
       = (spec_sbc_s s v < - 128 \<or> 127 < spec_sbc_s s v)"
proof -
  have "cpu_sbc v s = cpu_adc (NOT v) s"
    unfolding cpu_sbc_def cpu_adc_def Let_def
    by (simp only: sbc_low_byte sbc_borrow adc_not_carry sbc_overflow adc_not_overflow) simp
  moreover have "ucast (cpu_a (cpu_sbc v s)) = spec_sbc_u s v AND 0xFF"
    by (simp only: cpu_sbc_a ucast_ucast_low_byte)
  ultimately show ?thesis
    using cpu_sbc_a [of v s] cpu_sbc_C [of v s] cpu_sbc_V [of v s] spec_sbc_borrow [of s v]
    by blast
qed

text \<open>
  C4.  CPX absolute.  The handler of \<open>0xEC\<close> fetches one byte and compares \<open>X\<close> with that
  byte itself (\<open>CPX_abs_step\<close>), where the handler of CPY absolute fetches a 16-bit
  address and reads the operand there (\<open>CPY_abs_step\<close>).  With \<open>X = 0x10\<close>, the bytes
  \<open>EC 34 12\<close> at \<open>0x8000\<close> and \<open>0x10\<close> stored at \<open>0x1234\<close>, one step compares \<open>0x10\<close>
  with \<open>0x34\<close>: N is set, Z and C are clear, and \<open>PC\<close> is \<open>0x8002\<close>.
\<close>

theorem CPX_abs_compares_immediate:
  "cpu_execute \<lparr>cpu_a = 0, cpu_x = 0x10, cpu_y = 0, cpu_flags = 0, cpu_sp = 0xFD, cpu_pc = 0x8000,
       mem = (\<lambda>_. 0)(0x8000 := 0xEC, 0x8001 := 0x34, 0x8002 := 0x12, 0x1234 := 0x10)\<rparr>
     = Inr \<lparr>cpu_a = 0, cpu_x = 0x10, cpu_y = 0, cpu_flags = F_N, cpu_sp = 0xFD, cpu_pc = 0x8002,
       mem = (\<lambda>_. 0)(0x8000 := 0xEC, 0x8001 := 0x34, 0x8002 := 0x12, 0x1234 := 0x10)\<rparr>"
  by (simp add: run_defs)

text \<open>
  C5.  BRK.  The handler pushes the program counter as it stands after the fetch of the
  opcode, the address of BRK plus one (\<open>BRK_step\<close>), then the status byte with bits
  \<open>5\<close> and \<open>B\<close> set, sets I and loads \<open>PC\<close> from \<open>0xFFFE/0xFFFF\<close>; \<open>SP\<close> goes down
  by three.  With BRK at \<open>0x8000\<close> and \<open>SP = 0xFD\<close> the bytes pushed are \<open>0x80\<close> at
  \<open>0x01FD\<close>, \<open>0x01\<close> at \<open>0x01FC\<close> and the status at \<open>0x01FB\<close>.
\<close>

theorem BRK_pushes_next_byte_address:
  "cpu_execute \<lparr>cpu_a = 0, cpu_x = 0, cpu_y = 0, cpu_flags = F_C, cpu_sp = 0xFD, cpu_pc = 0x8000,
       mem = (\<lambda>_. 0)(0x8000 := 0x00, 0xFFFE := 0x34, 0xFFFF := 0x12)\<rparr>
     = Inr \<lparr>cpu_a = 0, cpu_x = 0, cpu_y = 0, cpu_flags = F_I OR F_C, cpu_sp = 0xFA, cpu_pc = 0x1234,
       mem = (\<lambda>_. 0)(0x8000 := 0x00, 0xFFFE := 0x34, 0xFFFF := 0x12,
                         0x01FD := 0x80, 0x01FC := 0x01, 0x01FB := F_C OR F_B OR F_5)\<rparr>"
  by (simp add: run_defs)

text \<open>
  C6.  Decoding.  The \<open>switch\<close> has a label for every opcode of the documented set and
  one more, \<open>0xAB\<close>, which falls through to LDY absolute; a step ends in the decode
  failure exactly for the other opcodes (\<open>cpu_execute_Inl\<close>).  With \<open>AB 34 12\<close> at
  \<open>0x8000\<close> and \<open>0x77\<close> stored at \<open>0x1234\<close>, one step loads \<open>Y\<close> with \<open>0x77\<close> and moves
  \<open>PC\<close> to \<open>0x8003\<close>.
\<close>

theorem opcode_AB_executes_LDY_abs:
  "cpu_execute \<lparr>cpu_a = 0, cpu_x = 0, cpu_y = 0, cpu_flags = 0, cpu_sp = 0xFD, cpu_pc = 0x8000,
       mem = (\<lambda>_. 0)(0x8000 := 0xAB, 0x8001 := 0x34, 0x8002 := 0x12, 0x1234 := 0x77)\<rparr>
     = Inr \<lparr>cpu_a = 0, cpu_x = 0, cpu_y = 0x77, cpu_flags = 0, cpu_sp = 0xFD, cpu_pc = 0x8003,
       mem = (\<lambda>_. 0)(0x8000 := 0xAB, 0x8001 := 0x34, 0x8002 := 0x12, 0x1234 := 0x77)\<rparr>"
  by (simp add: run_defs)

text \<open>
  C7.  CLD.  The handler of \<open>0xD8\<close> clears \<open>F_C\<close> (\<open>CLD_step\<close>), where the handler of
  SED sets \<open>F_D\<close> (\<open>SED_step\<close>).  With D and C both set, one step of CLD leaves D set
  and clears C; \<open>PC\<close> advances by one and nothing else changes.
\<close>

theorem CLD_clears_C_not_D:
  "cpu_execute \<lparr>cpu_a = 0, cpu_x = 0, cpu_y = 0, cpu_flags = F_D OR F_C, cpu_sp = 0xFD, cpu_pc = 0x8000,
       mem = (\<lambda>_. 0)(0x8000 := 0xD8)\<rparr>
     = Inr \<lparr>cpu_a = 0, cpu_x = 0, cpu_y = 0, cpu_flags = F_D, cpu_sp = 0xFD, cpu_pc = 0x8001,
       mem = (\<lambda>_. 0)(0x8000 := 0xD8)\<rparr>"
  by (simp add: run_defs)

text \<open>
  C8.  Bits \<open>5\<close> and \<open>B\<close> of the status byte are clear after reset; a step from a state
  where they are clear returns a state where they are clear, whatever the opcode; PLP
  (\<open>0x28\<close>) and RTI (\<open>0x40\<close>) return such a state from every state, since they mask
  the byte pulled from the stack with \<open>F_PHYSICAL\<close>; and a step at an opcode of the
  documented set always returns a state.
\<close>

theorem flags_5_B_stay_clear:
  "cpu_flags (cpu_init s0) AND (F_5 OR F_B) = 0
   \<and> (cpu_flags s AND (F_5 OR F_B) = 0 \<and> cpu_execute s = Inr s'
        \<longrightarrow> cpu_flags s' AND (F_5 OR F_B) = 0)
   \<and> ((mem s (cpu_pc s) = 0x28 \<or> mem s (cpu_pc s) = 0x40) \<and> cpu_execute s = Inr s'
        \<longrightarrow> cpu_flags s' AND (F_5 OR F_B) = 0)
   \<and> (mem s (cpu_pc s) \<in> set documented_opcodes \<longrightarrow> (\<exists>t. cpu_execute s = Inr t))"
proof -
  have init: "cpu_flags (cpu_init s0) AND (F_5 OR F_B) = 0"
    by (simp add: cpu_init_def flag_defs Let_def)
  have step: "cpu_flags s' AND (F_5 OR F_B) = 0"
    if "cpu_flags s AND (F_5 OR F_B) = 0" and "cpu_execute s = Inr s'"
    using cpu_execute_5_B [OF that(1)] that(2) by simp
  have pull: "cpu_flags s' AND (F_5 OR F_B) = 0"
    if "mem s (cpu_pc s) = 0x28 \<or> mem s (cpu_pc s) = 0x40" and "cpu_execute s = Inr s'"
    using that
    by (auto simp: cpu_execute_def cpu_execute_rows cpu_fetch8_def rd8_def Let_def split_beta
        and.assoc flag_defs)
  have total: "\<exists>t. cpu_execute s = Inr t" if "mem s (cpu_pc s) \<in> set documented_opcodes"
  proof (cases "cpu_execute s")
    case (Inl e)
    with that show ?thesis by (simp add: cpu_execute_Inl)
  next
    case (Inr t)
    then show ?thesis by blast
  qed
  from init step pull total show ?thesis by blast
qed

theorem flags_5_B_stay_clear_witness:
  "cpu_flags (cpu_init \<lparr>cpu_a = 0, cpu_x = 0, cpu_y = 0, cpu_flags = 0xFF, cpu_sp = 0, cpu_pc = 0,
       mem = (\<lambda>_. 0)\<rparr>) AND (F_5 OR F_B) = 0
   \<and> cpu_execute \<lparr>cpu_a = 0, cpu_x = 0, cpu_y = 0, cpu_flags = 0, cpu_sp = 0xFC, cpu_pc = 0x8000,
       mem = (\<lambda>_. 0)(0x8000 := 0x28, 0x01FD := 0xFF)\<rparr>
     = Inr \<lparr>cpu_a = 0, cpu_x = 0, cpu_y = 0, cpu_flags = 0xCF, cpu_sp = 0xFD, cpu_pc = 0x8001,
       mem = (\<lambda>_. 0)(0x8000 := 0x28, 0x01FD := 0xFF)\<rparr>
   \<and> (0x28 :: u8) \<in> set documented_opcodes
   \<and> (0xCF :: u8) AND (F_5 OR F_B) = 0"
  using flags_5_B_stay_clear [of
      "\<lparr>cpu_a = 0, cpu_x = 0, cpu_y = 0, cpu_flags = 0xFF, cpu_sp = 0, cpu_pc = 0,
        mem = (\<lambda>_. 0)\<rparr>"
      "\<lparr>cpu_a = 0, cpu_x = 0, cpu_y = 0, cpu_flags = 0, cpu_sp = 0xFC, cpu_pc = 0x8000,
        mem = (\<lambda>_. 0)(0x8000 := 0x28, 0x01FD := 0xFF)\<rparr>"
      "\<lparr>cpu_a = 0, cpu_x = 0, cpu_y = 0, cpu_flags = 0xCF, cpu_sp = 0xFD, cpu_pc = 0x8001,
        mem = (\<lambda>_. 0)(0x8000 := 0x28, 0x01FD := 0xFF)\<rparr>"]
  by (simp add: run_defs documented_opcodes_def)

text \<open>
  C9.  Disassembly.  With the tables of the source, \<open>mne_idx\<close> is zero at \<open>0x20\<close> and at
  \<open>0xD0\<close> and so is the addressing-mode nibble: for \<open>[0x20, 0x00, 0x90]\<close> and for
  \<open>[0xD0, 0xFE, 0x00]\<close> at \<open>0x8000\<close>, \<open>dis\<close> prints the address, a colon, two tabs, the
  mnemonic \<open>BRK\<close> and a newline, without an operand.
\<close>

theorem dis_prints_BRK:
  "dis [0x20, 0x00, 0x90] 0x8000 = ''8000:'' @ [CHR 0x09, CHR 0x09] @ ''BRK'' @ [CHR 0x0A]
   \<and> dis [0xD0, 0xFE, 0x00] 0x8000 = ''8000:'' @ [CHR 0x09, CHR 0x09] @ ''BRK'' @ [CHR 0x0A]"
  by (simp add: dis_defs nth_append)

text \<open>
  C10.  The stack pointer is a byte and wraps modulo 256: a push with \<open>SP = 0x00\<close>
  writes to \<open>0x0100\<close> and leaves \<open>SP = 0xFF\<close>; a pop with \<open>SP = 0xFF\<close> reads from
  \<open>0x0100\<close> and leaves \<open>SP = 0x00\<close>.  For every value of \<open>SP\<close> a push writes exactly
  the cell \<open>0x0100 + SP\<close> and a pop reads exactly the cell \<open>0x0100 + (SP + 1 mod 256)\<close>,
  and such an address always lies in \<open>[0x0100, 0x01FF]\<close>.  For the instructions: one
  step of PHA, PHP, JSR and BRK writes the cells \<open>0x0100 + SP\<close>, \<open>0x0100 + (SP - 1)\<close>,
  \<open>0x0100 + (SP - 2)\<close> that it pushes to, with the stack pointer taken modulo 256, and
  changes memory nowhere outside \<open>[0x0100, 0x01FF]\<close>; one step of PLA, PLP, RTS and RTI
  takes what it pulls from the cells \<open>0x0100 + (SP + 1)\<close>, \<open>0x0100 + (SP + 2)\<close>,
  \<open>0x0100 + (SP + 3)\<close> and writes nothing; a step at any opcode other than these eight
  and TXS leaves the stack pointer unchanged.
\<close>

theorem stack_pointer_wraps:
  "(cpu_sp s = 0x00 \<longrightarrow>
      cpu_push8 v s = s\<lparr>mem := (mem s)(0x0100 := v), cpu_sp := 0xFF\<rparr>)
   \<and> (cpu_sp s = 0xFF \<longrightarrow>
      cpu_pop8 s = (mem s 0x0100, s\<lparr>cpu_sp := 0x00\<rparr>))
   \<and> cpu_push8 v s = s\<lparr>mem := (mem s)(0x0100 + ucast (cpu_sp s) := v), cpu_sp := cpu_sp s - 1\<rparr>
   \<and> cpu_pop8 s = (mem s (0x0100 + ucast (cpu_sp s + 1)), s\<lparr>cpu_sp := cpu_sp s + 1\<rparr>)
   \<and> (0x0100 :: u16) \<le> 0x0100 + ucast (sp :: u8) \<and> (0x0100 :: u16) + ucast sp \<le> 0x01FF
   \<and> (mem s (cpu_pc s) = 0x48 \<longrightarrow>
        cpu_execute s = Inr (s\<lparr>cpu_pc := cpu_pc s + 1,
          mem := (mem s)(0x0100 + ucast (cpu_sp s) := cpu_a s),
          cpu_sp := cpu_sp s - 1\<rparr>))
   \<and> (mem s (cpu_pc s) = 0x08 \<longrightarrow>
        cpu_execute s = Inr (s\<lparr>cpu_pc := cpu_pc s + 1,
          mem := (mem s)(0x0100 + ucast (cpu_sp s) := cpu_flags s OR F_B OR F_5),
          cpu_sp := cpu_sp s - 1\<rparr>))
   \<and> (mem s (cpu_pc s) = 0x20 \<longrightarrow>
        cpu_execute s =
          (let m = (mem s)
                 (0x0100 + ucast (cpu_sp s) := ucast (drop_bit 8 (cpu_pc s + 2)),
                  0x0100 + ucast (cpu_sp s - 1) := ucast ((cpu_pc s + 2) AND 0xFF))
           in Inr (s\<lparr>mem := m, cpu_sp := cpu_sp s - 2,
                    cpu_pc := ucast (mem s (cpu_pc s + 1))
                              OR push_bit 8 (ucast (m (cpu_pc s + 2)))\<rparr>)))
   \<and> (mem s (cpu_pc s) = 0x00 \<longrightarrow>
        cpu_execute s =
          (let m = (mem s)
                 (0x0100 + ucast (cpu_sp s) := ucast (drop_bit 8 (cpu_pc s + 1)),
                  0x0100 + ucast (cpu_sp s - 1) := ucast ((cpu_pc s + 1) AND 0xFF),
                  0x0100 + ucast (cpu_sp s - 2) := cpu_flags s OR F_B OR F_5)
           in Inr (s\<lparr>mem := m, cpu_sp := cpu_sp s - 3, cpu_flags := cpu_flags s OR F_I,
                    cpu_pc := ucast (m 0xFFFE) + push_bit 8 (ucast (m 0xFFFF))\<rparr>)))
   \<and> (mem s (cpu_pc s) = 0x68 \<longrightarrow>
        cpu_execute s = Inr (s\<lparr>cpu_pc := cpu_pc s + 1, cpu_sp := cpu_sp s + 1,
          cpu_a := mem s (0x0100 + ucast (cpu_sp s + 1))\<rparr>))
   \<and> (mem s (cpu_pc s) = 0x28 \<longrightarrow>
        cpu_execute s = Inr (s\<lparr>cpu_pc := cpu_pc s + 1, cpu_sp := cpu_sp s + 1,
          cpu_flags := mem s (0x0100 + ucast (cpu_sp s + 1)) AND F_PHYSICAL\<rparr>))
   \<and> (mem s (cpu_pc s) = 0x60 \<longrightarrow>
        cpu_execute s = Inr (s\<lparr>cpu_sp := cpu_sp s + 2,
          cpu_pc := (ucast (mem s (0x0100 + ucast (cpu_sp s + 1)))
                     OR push_bit 8 (ucast (mem s (0x0100 + ucast (cpu_sp s + 2))))) + 1\<rparr>))
   \<and> (mem s (cpu_pc s) = 0x40 \<longrightarrow>
        cpu_execute s = Inr (s\<lparr>cpu_sp := cpu_sp s + 3,
          cpu_flags := mem s (0x0100 + ucast (cpu_sp s + 1)) AND F_PHYSICAL,
          cpu_pc := ucast (mem s (0x0100 + ucast (cpu_sp s + 2)))
                     + push_bit 8 (ucast (mem s (0x0100 + ucast (cpu_sp s + 3))))\<rparr>))
   \<and> (mem s (cpu_pc s) \<in> set [0x00, 0x08, 0x20, 0x48] \<and> cpu_execute s = Inr s'
          \<and> mem s' addr \<noteq> mem s addr
        \<longrightarrow> 0x0100 \<le> addr \<and> addr \<le> 0x01FF)
   \<and> (mem s (cpu_pc s) \<in> set [0x28, 0x40, 0x60, 0x68] \<and> cpu_execute s = Inr s'
        \<longrightarrow> mem s' = mem s)
   \<and> (mem s (cpu_pc s) \<notin> set [0x00, 0x08, 0x20, 0x48, 0x28, 0x40, 0x60, 0x68, 0x9A]
          \<and> cpu_execute s = Inr s'
        \<longrightarrow> cpu_sp s' = cpu_sp s)"
proof -
  have helpers:
    "(cpu_sp s = 0x00 \<longrightarrow>
        cpu_push8 v s = s\<lparr>mem := (mem s)(0x0100 := v), cpu_sp := 0xFF\<rparr>)
     \<and> (cpu_sp s = 0xFF \<longrightarrow>
        cpu_pop8 s = (mem s 0x0100, s\<lparr>cpu_sp := 0x00\<rparr>))
     \<and> cpu_push8 v s = s\<lparr>mem := (mem s)(0x0100 + ucast (cpu_sp s) := v), cpu_sp := cpu_sp s - 1\<rparr>
     \<and> cpu_pop8 s = (mem s (0x0100 + ucast (cpu_sp s + 1)), s\<lparr>cpu_sp := cpu_sp s + 1\<rparr>)
     \<and> (0x0100 :: u16) \<le> 0x0100 + ucast (sp :: u8) \<and> (0x0100 :: u16) + ucast sp \<le> 0x01FF"
    using stack_addr_range [of sp]
    by (simp add: cpu_push8_def cpu_pop8_def wr8_def rd8_def)
  show ?thesis
    by (intro conjI impI helpers [THEN conjunct1]
        helpers [THEN conjunct2, THEN conjunct1]
        helpers [THEN conjunct2, THEN conjunct2, THEN conjunct1]
        helpers [THEN conjunct2, THEN conjunct2, THEN conjunct2, THEN conjunct1]
        helpers [THEN conjunct2, THEN conjunct2, THEN conjunct2, THEN conjunct2, THEN conjunct1]
        helpers [THEN conjunct2, THEN conjunct2, THEN conjunct2, THEN conjunct2, THEN conjunct2]
        PHA_step PHP_step JSR_step BRK_step PLA_step PLP_step RTS_step RTI_step;
        (elim conjE)?;
        (erule (2) stack_writes_in_page [THEN conjunct1]
         | erule (2) stack_writes_in_page [THEN conjunct2]
         | erule (1) stack_reads_keep_memory
         | erule (1) other_opcodes_keep_sp
         | assumption))
qed

theorem stack_pointer_wraps_witness:
  "cpu_push8 0x42 \<lparr>cpu_a = 0, cpu_x = 0, cpu_y = 0, cpu_flags = 0, cpu_sp = 0x00, cpu_pc = 0,
       mem = (\<lambda>_. 0)\<rparr>
     = \<lparr>cpu_a = 0, cpu_x = 0, cpu_y = 0, cpu_flags = 0, cpu_sp = 0xFF, cpu_pc = 0,
       mem = (\<lambda>_. 0)(0x0100 := 0x42)\<rparr>
   \<and> cpu_pop8 \<lparr>cpu_a = 0, cpu_x = 0, cpu_y = 0, cpu_flags = 0, cpu_sp = 0xFF, cpu_pc = 0,
       mem = (\<lambda>_. 0)(0x0100 := 0x42)\<rparr>
     = (0x42, \<lparr>cpu_a = 0, cpu_x = 0, cpu_y = 0, cpu_flags = 0, cpu_sp = 0x00, cpu_pc = 0,
       mem = (\<lambda>_. 0)(0x0100 := 0x42)\<rparr>)
   \<and> cpu_execute \<lparr>cpu_a = 0x42, cpu_x = 0, cpu_y = 0, cpu_flags = 0, cpu_sp = 0x00, cpu_pc = 0x8000,
       mem = (\<lambda>_. 0)(0x8000 := 0x48)\<rparr>
     = Inr \<lparr>cpu_a = 0x42, cpu_x = 0, cpu_y = 0, cpu_flags = 0, cpu_sp = 0xFF, cpu_pc = 0x8001,
       mem = (\<lambda>_. 0)(0x8000 := 0x48, 0x0100 := 0x42)\<rparr>
   \<and> cpu_execute \<lparr>cpu_a = 0, cpu_x = 0, cpu_y = 0, cpu_flags = 0, cpu_sp = 0xFF, cpu_pc = 0x8000,
       mem = (\<lambda>_. 0)(0x8000 := 0x68, 0x0100 := 0x42)\<rparr>
     = Inr \<lparr>cpu_a = 0x42, cpu_x = 0, cpu_y = 0, cpu_flags = 0, cpu_sp = 0x00, cpu_pc = 0x8001,
       mem = (\<lambda>_. 0)(0x8000 := 0x68, 0x0100 := 0x42)\<rparr>"
  using stack_pointer_wraps [where s = "\<lparr>cpu_a = 0, cpu_x = 0, cpu_y = 0, cpu_flags = 0, cpu_sp = 0x00, cpu_pc = 0,
       mem = (\<lambda>_. 0)\<rparr>"
      and v = "0x42" and sp = 0 and s' = "\<lparr>cpu_a = 0, cpu_x = 0, cpu_y = 0, cpu_flags = 0, cpu_sp = 0xFF, cpu_pc = 0,
       mem = (\<lambda>_. 0)(0x0100 := 0x42)\<rparr>"
      and addr = 0]
    stack_pointer_wraps [where s = "\<lparr>cpu_a = 0, cpu_x = 0, cpu_y = 0, cpu_flags = 0, cpu_sp = 0xFF, cpu_pc = 0,
       mem = (\<lambda>_. 0)(0x0100 := 0x42)\<rparr>"
      and v = 0 and sp = 0 and s' = "\<lparr>cpu_a = 0, cpu_x = 0, cpu_y = 0, cpu_flags = 0, cpu_sp = 0x00, cpu_pc = 0,
       mem = (\<lambda>_. 0)(0x0100 := 0x42)\<rparr>"
      and addr = 0]
    stack_pointer_wraps [where s = "\<lparr>cpu_a = 0x42, cpu_x = 0, cpu_y = 0, cpu_flags = 0, cpu_sp = 0x00, cpu_pc = 0x8000,
       mem = (\<lambda>_. 0)(0x8000 := 0x48)\<rparr>"
      and v = 0 and sp = 0 and s' = "\<lparr>cpu_a = 0x42, cpu_x = 0, cpu_y = 0, cpu_flags = 0, cpu_sp = 0xFF, cpu_pc = 0x8001,
       mem = (\<lambda>_. 0)(0x8000 := 0x48, 0x0100 := 0x42)\<rparr>"
      and addr = "0x0100"]
    stack_pointer_wraps [where s = "\<lparr>cpu_a = 0, cpu_x = 0, cpu_y = 0, cpu_flags = 0, cpu_sp = 0xFF, cpu_pc = 0x8000,
       mem = (\<lambda>_. 0)(0x8000 := 0x68, 0x0100 := 0x42)\<rparr>"
      and v = 0 and sp = 0 and s' = "\<lparr>cpu_a = 0x42, cpu_x = 0, cpu_y = 0, cpu_flags = 0, cpu_sp = 0x00, cpu_pc = 0x8001,
       mem = (\<lambda>_. 0)(0x8000 := 0x68, 0x0100 := 0x42)\<rparr>"
      and addr = 0]
  by simp

end
